theory Spec2Isabelle
  imports Main "HOL-Library.Sublist"
begin

section \<open>Strings and paths\<close>

text \<open>
  Python strings are modelled as \<open>string\<close>, a \<open>char\<close> being a code point below
  256; a string is truthy exactly when it is not empty. \<open>str.strip()\<close> removes
  leading and trailing whitespace, the characters for which \<open>str.isspace\<close> holds:
  below 256 these are TAB, LF, VT, FF, CR (9..13), the separators FS, GS, RS, US (28..31),
  the blank (32), NEL (133) and the no-break space (160).
\<close>

definition is_space :: "char \<Rightarrow> bool" where
  "is_space c =
     (let n = (of_char c :: nat)
      in (9 \<le> n \<and> n \<le> 13) \<or> (28 \<le> n \<and> n \<le> 32) \<or> n = 133 \<or> n = 160)"

definition strip :: "string \<Rightarrow> string" where
  "strip s = rev (dropWhile is_space (rev (dropWhile is_space s)))"

text \<open>\<open>str(n)\<close> for a non-negative integer, and for any integer.\<close>

definition digit :: "nat \<Rightarrow> char" where
  "digit d = ''0123456789'' ! d"

fun str_nat :: "nat \<Rightarrow> string" where
  "str_nat n = (if n < 10 then [digit n] else str_nat (n div 10) @ [digit (n mod 10)])"

declare str_nat.simps [simp del]

definition str_int :: "int \<Rightarrow> string" where
  "str_int i = (if i < 0 then CHR ''-'' # str_nat (nat (- i)) else str_nat (nat i))"

text \<open>\<open>sep.join(xs)\<close>.\<close>

fun str_join :: "string \<Rightarrow> string list \<Rightarrow> string" where
  "str_join sep [] = []"
| "str_join sep [x] = x"
| "str_join sep (x # y # ys) = x @ sep @ str_join sep (y # ys)"

text \<open>
  \<open>os.path.join(a, b)\<close> for two components, as \<open>posixpath.join\<close> computes it: an
  absolute second component replaces the first; otherwise the components are
  concatenated, with a separator unless the first is empty or already ends in one.
\<close>

definition path_join :: "string \<Rightarrow> string \<Rightarrow> string" where
  "path_join a b =
     (if b \<noteq> [] \<and> hd b = CHR ''/'' then b
      else if a = [] \<or> last a = CHR ''/'' then a @ b
      else a @ ''/'' @ b)"

section \<open>The environment and the external tools\<close>

text \<open>
  \<open>env\<close> holds what the module reads from the process: \<open>sys.executable\<close>, the
  module constant \<open>DREAMGAUSSIAN_SCRIPT\<close> (computed once at import from the working
  directory of that moment) and \<open>os.getcwd()\<close>.
\<close>

record env =
  executable :: string
  DREAMGAUSSIAN_SCRIPT :: string
  getcwd :: string

text \<open>
  An exception is represented by its message, the text \<open>str(ex)\<close> yields.
  \<open>completed\<close> is the \<open>CompletedProcess\<close> of \<open>subprocess.run\<close>.
\<close>

type_synonym exn = string

record completed =
  returncode :: int
  stdout :: string
  stderr :: string

text \<open>
  \<open>world\<close> is the behaviour of everything outside the module during one job:
  \<open>subprocess.run\<close> (which may itself raise, for instance when the interpreter is
  missing), whether \<open>obj2vox\<close> can be imported, the converter \<open>obj2vox\<close> (\<open>Some\<close>
  the exception it raises), and the rendering done by \<open>show_preview\<close> (\<open>Inl\<close> an
  exception of \<open>trimesh\<close> or \<open>PIL\<close>, \<open>Inr\<close> whether an image was produced).
\<close>

record world =
  subprocess_run :: "string list \<Rightarrow> exn + completed"
  obj2vox_importable :: bool
  obj2vox :: "string \<Rightarrow> string \<Rightarrow> int \<Rightarrow> exn option"
  save_image :: "string \<Rightarrow> exn + bool"

text \<open>
  A job is the tuple built by \<open>enqueue_job\<close> and unpacked into the parameters of
  \<open>run_job\<close>; the fields carry the parameter names.
\<close>

record job =
  job_text :: string
  job_img :: string
  job_out_dir :: string
  job_mesh_name :: string
  job_mesh_only :: bool
  job_texture_only :: bool
  job_mesh_and_texture :: bool
  job_voxel_mode :: bool
  job_voxel_res :: int

text \<open>The observable effects, in the order the code performs them.\<close>

datatype effect =
    Print string
  | PrintArgs "string list"
  | SubprocessRun "string list"
  | ImportObj2Vox
  | Obj2Vox string string int
  | ShowWarning string string
  | ShowInfo string string
  | ShowError string string
  | QueuePut job
  | ThreadStart job
  | ThreadExit job
  | CallbackError exn

section \<open>\<open>run_dreamgaussian\<close>\<close>

text \<open>Lines 31 to 41: the configuration file handed to the generation script.\<close>

definition select_config :: "env \<Rightarrow> string \<Rightarrow> string \<Rightarrow> string \<Rightarrow> string" where
  "select_config e config_preset text_prompt image_path =
     (let config_dir = path_join (getcwd e) ''configs'' in
      if config_preset \<noteq> [] \<and> config_preset \<noteq> ''auto'' then path_join config_dir config_preset
      else if text_prompt \<noteq> [] \<and> image_path \<noteq> [] then path_join config_dir ''imagedream.yaml''
      else if text_prompt \<noteq> [] then path_join config_dir ''text.yaml''
      else path_join config_dir ''image.yaml'')"

text \<open>Lines 43 to 53: the command line.\<close>

definition assemble_args ::
  "env \<Rightarrow> string \<Rightarrow> string \<Rightarrow> string \<Rightarrow> string \<Rightarrow> string \<Rightarrow> bool \<Rightarrow> string list" where
  "assemble_args e config text_prompt image_path out_dir mesh_name hd_flag =
     [executable e, DREAMGAUSSIAN_SCRIPT e,
      ''--config'', config,
      ''--output_dir'', out_dir,
      ''--name'', mesh_name,
      if hd_flag then ''--hd'' else ''--low'']
     @ (if text_prompt \<noteq> [] then [''--text'', text_prompt] else [])
     @ (if image_path \<noteq> [] then [''--image'', image_path] else [])"

text \<open>
  The whole function: the result is the raised exception or the pair of paths,
  together with the effects performed on the way.
\<close>

definition run_dreamgaussian ::
  "world \<Rightarrow> env \<Rightarrow> string \<Rightarrow> string \<Rightarrow> string \<Rightarrow> string \<Rightarrow> bool \<Rightarrow> string
     \<Rightarrow> (exn + string \<times> string) \<times> effect list" where
  "run_dreamgaussian w e text_prompt image_path out_dir mesh_name hd_flag config_preset =
     (let config = select_config e config_preset text_prompt image_path;
          args = assemble_args e config text_prompt image_path out_dir mesh_name hd_flag
      in case subprocess_run w args of
           Inl ex \<Rightarrow> (Inl ex, [PrintArgs args, SubprocessRun args])
         | Inr result \<Rightarrow>
             if returncode result \<noteq> 0
             then (Inl ''DreamGaussian failed!'',
                   [PrintArgs args, SubprocessRun args, Print (stdout result), Print (stderr result)])
             else (Inr (path_join out_dir (mesh_name @ ''.obj''),
                        path_join out_dir (mesh_name @ ''.png'')),
                   [PrintArgs args, SubprocessRun args, Print (stdout result)]))"

section \<open>\<open>obj_to_vox\<close>\<close>

definition obj_to_vox :: "world \<Rightarrow> string \<Rightarrow> string \<Rightarrow> int \<Rightarrow> (exn + string) \<times> effect list" where
  "obj_to_vox w obj_path vox_path resolution =
     (if \<not> obj2vox_importable w
      then (Inl ''You must install 'obj2vox' package (pip install obj2vox)!'', [ImportObj2Vox])
      else
        let fx = [ImportObj2Vox,
                  Print (''Converting '' @ obj_path @ '' to '' @ vox_path @ '' at resolution ''
                         @ str_int resolution @ ''...''),
                  Obj2Vox obj_path vox_path resolution]
        in case obj2vox w obj_path vox_path resolution of
             Some ex \<Rightarrow> (Inl ex, fx)
           | None \<Rightarrow> (Inr vox_path, fx))"

section \<open>The application\<close>

record thread =
  thread_job :: job
  thread_preset :: string

text \<open>
  The attributes of \<open>AssetGeneratorApp\<close> the code reads or writes: the queue
  \<open>jobs\<close>, the Tk variables, the flag \<open>processing\<close>, the list box \<open>job_list\<close> and
  the preview label (its text and the mesh whose rendering it shows). \<open>threads\<close> are the
  worker threads started and not yet finished, each with the job it was given and the
  value its local \<open>config_preset\<close> took on the first line of \<open>run_job\<close>, and
  \<open>trace\<close> records the effects performed so far.
\<close>

record app =
  jobs :: "job list"
  preview_mesh_path :: "string option"
  text_prompt :: string
  image_path :: string
  voxel_mode :: bool
  voxel_res :: int
  mesh_only :: bool
  texture_only :: bool
  mesh_and_texture :: bool
  output_dir :: string
  processing :: bool
  config_preset :: string
  job_list :: "string list"
  preview_label_text :: string
  preview_label_image :: "string option"
  threads :: "thread list"
  trace :: "effect list"

text \<open>
  The values of the two read-only comboboxes of \<open>setup_ui\<close>: the voxel resolutions and
  the configuration presets.
\<close>

definition voxel_res_options :: "int list" where
  "voxel_res_options = [128, 256, 512]"

definition config_options :: "string list" where
  "config_options =
     [''auto'', ''image.yaml'', ''image_sai.yaml'', ''imagedream.yaml'', ''text.yaml'',
      ''text_mv.yaml'']"

text \<open>\<open>__init__\<close> and \<open>setup_ui\<close>, as far as they set these attributes.\<close>

definition init :: "env \<Rightarrow> app" where
  "init e =
     \<lparr>jobs = [], preview_mesh_path = None, text_prompt = [], image_path = [],
      voxel_mode = True, voxel_res = 256, mesh_only = True, texture_only = False,
      mesh_and_texture = True, output_dir = getcwd e, processing = False,
      config_preset = ''auto'', job_list = [], preview_label_text = ''No preview yet.'',
      preview_label_image = None, threads = [], trace = []\<rparr>"

definition emit :: "effect list \<Rightarrow> app \<Rightarrow> app" where
  "emit fx s = s\<lparr>trace := trace s @ fx\<rparr>"

subsection \<open>\<open>show_preview\<close>\<close>

text \<open>Every exception of the rendering is caught inside; the label shows the outcome.\<close>

definition show_preview :: "world \<Rightarrow> string \<Rightarrow> app \<Rightarrow> app" where
  "show_preview w mesh_path s =
     (case save_image w mesh_path of
        Inl ex \<Rightarrow> s\<lparr>preview_label_text := ''Preview error: '' @ ex\<rparr>
      | Inr img \<Rightarrow>
          if img then s\<lparr>preview_label_image := Some mesh_path\<rparr>
          else s\<lparr>preview_label_text := ''3D preview not available.''\<rparr>)"

subsection \<open>\<open>run_job\<close>\<close>

text \<open>Lines 237 to 239, with the list \<open>out_paths\<close> built so far.\<close>

definition report_success :: "world \<Rightarrow> string \<Rightarrow> string list \<Rightarrow> app \<Rightarrow> app" where
  "report_success w obj_path out_paths s =
     emit [ShowInfo ''Success''
             (''Generation complete!'' @ [CHR 0x0A] @ ''Files:'' @ [CHR 0x0A]
              @ str_join [CHR 0x0A] out_paths)]
       (show_preview w obj_path (s\<lparr>preview_mesh_path := Some obj_path\<rparr>))"

text \<open>
  The body of the \<open>try\<close> block: \<open>Inl\<close> the exception that left it, or \<open>Inr\<close> the
  value of the local \<open>out_paths\<close> when the block ran to its end. The preset is read
  from the Tk variable here, when the thread runs (the attribute \<open>config_preset\<close> exists
  once \<open>setup_ui\<close> has run, so the \<open>hasattr\<close> test is true).
\<close>

definition run_job_try :: "world \<Rightarrow> env \<Rightarrow> app \<Rightarrow> job \<Rightarrow> (exn + string list) \<times> app" where
  "run_job_try w e s j =
     (case run_dreamgaussian w e (job_text j) (job_img j) (job_out_dir j) (job_mesh_name j)
             True (config_preset s) of
        (Inl ex, fx) \<Rightarrow> (Inl ex, emit fx s)
      | (Inr (obj_path, tex_path), fx) \<Rightarrow>
          let s1 = emit fx s;
              out_paths = [obj_path]
                @ (if job_texture_only j \<or> job_mesh_and_texture j then [tex_path] else [])
          in if job_voxel_mode j
             then
               let vox_path = path_join (job_out_dir j)
                     (job_mesh_name j @ ''_'' @ str_int (job_voxel_res j) @ ''.vox'')
               in case obj_to_vox w obj_path vox_path (job_voxel_res j) of
                    (Inl ex, fx2) \<Rightarrow> (Inl ex, emit fx2 s1)
                  | (Inr v, fx2) \<Rightarrow>
                      (Inr (out_paths @ [vox_path]),
                       report_success w obj_path (out_paths @ [vox_path]) (emit fx2 s1))
             else (Inr out_paths, report_success w obj_path out_paths s1))"

text \<open>The handler and the \<open>finally\<close> clause; the thread ends after it.\<close>

definition run_job :: "world \<Rightarrow> env \<Rightarrow> app \<Rightarrow> job \<Rightarrow> app" where
  "run_job w e s j =
     (case run_job_try w e s j of
        (Inl ex, s1) \<Rightarrow>
          emit [ThreadExit j]
            ((emit [ShowError ''Error'' (''Job failed: '' @ ex)] s1)\<lparr>processing := False\<rparr>)
      | (Inr ps, s1) \<Rightarrow> emit [ThreadExit j] (s1\<lparr>processing := False\<rparr>))"

subsection \<open>The queue\<close>

text \<open>
  \<open>t.start()\<close> starts the thread on \<open>run_job\<close>, whose first statement (line 225)
  reads the Tk variable \<open>config_preset\<close>; that read is taken with the start of the
  thread, and the value is kept with the thread.
\<close>

definition process_next_job :: "app \<Rightarrow> app" where
  "process_next_job s =
     (case jobs s of
        [] \<Rightarrow> s
      | j # rest \<Rightarrow>
          emit [ThreadStart j]
            (s\<lparr>processing := True, jobs := rest, job_list := drop 1 (job_list s),
               threads := threads s @ [\<lparr>thread_job = j, thread_preset = config_preset s\<rparr>]\<rparr>))"

text \<open>
  \<open>listing\<close> is what \<open>os.listdir(out_dir)\<close> does at this moment: the number of
  entries, or the \<open>OSError\<close> it raises. An exception leaving the callback is reported
  by Tk and the main loop goes on.
\<close>

definition enqueue_job :: "(exn + nat) \<Rightarrow> app \<Rightarrow> app" where
  "enqueue_job listing s =
     (let text = strip (text_prompt s);
          img = strip (image_path s)
      in if text = [] \<and> img = []
         then emit [ShowWarning ''No prompt'' ''Provide text and/or image prompt.''] s
         else
           case listing of
             Inl ex \<Rightarrow> emit [CallbackError ex] s
           | Inr n \<Rightarrow>
               let out_dir = output_dir s;
                   mesh_name = ''dreamasset_'' @ str_nat n;
                   j = \<lparr>job_text = text, job_img = img, job_out_dir = out_dir,
                        job_mesh_name = mesh_name, job_mesh_only = mesh_only s,
                        job_texture_only = texture_only s,
                        job_mesh_and_texture = mesh_and_texture s,
                        job_voxel_mode = voxel_mode s, job_voxel_res = voxel_res s\<rparr>;
                   s1 = emit [QueuePut j] (s\<lparr>jobs := jobs s @ [j]\<rparr>);
                   s2 = s1\<lparr>job_list := job_list s1
                           @ [''Job '' @ str_nat (length (job_list s1) + 1) @ '': '' @ mesh_name]\<rparr>
               in if \<not> processing s2 then process_next_job s2 else s2)"

definition poll_queue :: "app \<Rightarrow> app" where
  "poll_queue s = (if \<not> processing s \<and> jobs s \<noteq> [] then process_next_job s else s)"

subsection \<open>What can happen, in any order\<close>

text \<open>
  The user edits a field, presses Generate (\<open>enqueue_job\<close>), the timer fires
  (\<open>poll_queue\<close>, which re-arms itself), or the worker thread at some position of
  \<open>threads\<close> completes \<open>run_job\<close> in a world of its own. The two read-only
  comboboxes offer their listed values only. The callbacks run on the one thread of the
  main loop, so each is a step. The thread has read \<open>config_preset\<close> when it started;
  what follows in \<open>run_job\<close> reads nothing the main loop writes, and is taken as one
  step at the moment the thread ends: it is \<open>run_job\<close> where the variable holds what
  the thread read, and the variable is as the user left it afterwards.
\<close>

datatype input =
    SetTextPrompt string
  | SetImagePath string
  | SetVoxelMode bool
  | SetVoxelRes int
  | SetMeshOnly bool
  | SetTextureOnly bool
  | SetMeshAndTexture bool
  | SetOutputDir string
  | SetConfigPreset string
  | Generate "exn + nat"
  | Poll
  | Worker nat world

fun fire :: "env \<Rightarrow> app \<Rightarrow> input \<Rightarrow> app" where
  "fire e s (SetTextPrompt v) = s\<lparr>text_prompt := v\<rparr>"
| "fire e s (SetImagePath v) = s\<lparr>image_path := v\<rparr>"
| "fire e s (SetVoxelMode b) = s\<lparr>voxel_mode := b\<rparr>"
| "fire e s (SetVoxelRes n) = (if n \<in> set voxel_res_options then s\<lparr>voxel_res := n\<rparr> else s)"
| "fire e s (SetMeshOnly b) = s\<lparr>mesh_only := b\<rparr>"
| "fire e s (SetTextureOnly b) = s\<lparr>texture_only := b\<rparr>"
| "fire e s (SetMeshAndTexture b) = s\<lparr>mesh_and_texture := b\<rparr>"
| "fire e s (SetOutputDir v) = s\<lparr>output_dir := v\<rparr>"
| "fire e s (SetConfigPreset v) =
     (if v \<in> set config_options then s\<lparr>config_preset := v\<rparr> else s)"
| "fire e s (Generate listing) = enqueue_job listing s"
| "fire e s Poll = poll_queue s"
| "fire e s (Worker i w) =
     (if i < length (threads s)
      then (run_job w e
              (s\<lparr>threads := take i (threads s) @ drop (Suc i) (threads s),
                 config_preset := thread_preset (threads s ! i)\<rparr>)
              (thread_job (threads s ! i)))
           \<lparr>config_preset := config_preset s\<rparr>
      else s)"

definition run :: "env \<Rightarrow> input list \<Rightarrow> app" where
  "run e ins = foldl (fire e) (init e) ins"

text \<open>Reading a trace.\<close>

fun started :: "effect list \<Rightarrow> job list" where
  "started [] = []"
| "started (ThreadStart j # fx) = j # started fx"
| "started (x # fx) = started fx"

fun submitted :: "effect list \<Rightarrow> job list" where
  "submitted [] = []"
| "submitted (QueuePut j # fx) = j # submitted fx"
| "submitted (x # fx) = submitted fx"

text \<open>
  \<open>one_at_a_time n fx\<close>: with \<open>n\<close> jobs running before it, the trace \<open>fx\<close> starts a
  thread only when no job is running, and a thread ends only when one is.
\<close>

fun one_at_a_time :: "nat \<Rightarrow> effect list \<Rightarrow> bool" where
  "one_at_a_time n [] = (n \<le> 1)"
| "one_at_a_time n (ThreadStart j # fx) = (n = 0 \<and> one_at_a_time 1 fx)"
| "one_at_a_time n (ThreadExit j # fx) = (n = 1 \<and> one_at_a_time 0 fx)"
| "one_at_a_time n (x # fx) = one_at_a_time n fx"

fun is_conversion :: "effect \<Rightarrow> bool" where
  "is_conversion ImportObj2Vox = True"
| "is_conversion (Obj2Vox a b c) = True"
| "is_conversion x = False"

fun is_notification :: "effect \<Rightarrow> bool" where
  "is_notification (ShowInfo a b) = True"
| "is_notification (ShowError a b) = True"
| "is_notification (ShowWarning a b) = True"
| "is_notification x = False"

fun calls :: "effect list \<Rightarrow> string list list" where
  "calls [] = []"
| "calls (SubprocessRun args # fx) = args # calls fx"
| "calls (x # fx) = calls fx"

text \<open>Names for what a job's pipeline computes from the job.\<close>

definition config_dir :: "env \<Rightarrow> string" where
  "config_dir e = path_join (getcwd e) ''configs''"

definition generate :: "world \<Rightarrow> env \<Rightarrow> app \<Rightarrow> job \<Rightarrow> (exn + string \<times> string) \<times> effect list" where
  "generate w e s j =
     run_dreamgaussian w e (job_text j) (job_img j) (job_out_dir j) (job_mesh_name j) True
       (config_preset s)"

definition job_args :: "env \<Rightarrow> string \<Rightarrow> job \<Rightarrow> string list" where
  "job_args e preset j =
     assemble_args e (select_config e preset (job_text j) (job_img j))
       (job_text j) (job_img j) (job_out_dir j) (job_mesh_name j) True"

definition obj_path_of :: "job \<Rightarrow> string" where
  "obj_path_of j = path_join (job_out_dir j) (job_mesh_name j @ ''.obj'')"

definition tex_path_of :: "job \<Rightarrow> string" where
  "tex_path_of j = path_join (job_out_dir j) (job_mesh_name j @ ''.png'')"

definition vox_path_of :: "job \<Rightarrow> string" where
  "vox_path_of j =
     path_join (job_out_dir j) (job_mesh_name j @ ''_'' @ str_int (job_voxel_res j) @ ''.vox'')"

section \<open>Concrete inputs\<close>

definition env0 :: env where
  "env0 = \<lparr>executable = ''python3'', DREAMGAUSSIAN_SCRIPT = ''/work/run_dreamgaussian.py'',
            getcwd = ''/work''\<rparr>"

definition tool_exit :: "int \<Rightarrow> string \<Rightarrow> string list \<Rightarrow> exn + completed" where
  "tool_exit rc err args = Inr \<lparr>returncode = rc, stdout = ''iter 500'', stderr = err\<rparr>"

definition world_ok :: world where
  "world_ok = \<lparr>subprocess_run = tool_exit 0 [], obj2vox_importable = True,
                obj2vox = (\<lambda>a b c. None), save_image = (\<lambda>p. Inr True)\<rparr>"

definition world_fail :: world where
  "world_fail = \<lparr>subprocess_run = tool_exit 1 ''CUDA out of memory'', obj2vox_importable = True,
                  obj2vox = (\<lambda>a b c. None), save_image = (\<lambda>p. Inr True)\<rparr>"

definition job_chair :: job where
  "job_chair = \<lparr>job_text = ''a red chair'', job_img = [], job_out_dir = ''/out'',
                 job_mesh_name = ''dreamasset_0'', job_mesh_only = True, job_texture_only = False,
                 job_mesh_and_texture = True, job_voxel_mode = False, job_voxel_res = 256\<rparr>"

definition job_cat :: job where
  "job_cat = \<lparr>job_text = [], job_img = ''/tmp/cat.png'', job_out_dir = ''/out'',
               job_mesh_name = ''dreamasset_2'', job_mesh_only = True, job_texture_only = False,
               job_mesh_and_texture = False, job_voxel_mode = True, job_voxel_res = 256\<rparr>"

text \<open>The tuple \<open>enqueue_job\<close> builds when the listing of the output directory has \<open>n\<close> entries.\<close>

definition submission :: "nat \<Rightarrow> app \<Rightarrow> job" where
  "submission n s =
     \<lparr>job_text = strip (text_prompt s), job_img = strip (image_path s),
      job_out_dir = output_dir s, job_mesh_name = ''dreamasset_'' @ str_nat n,
      job_mesh_only = mesh_only s, job_texture_only = texture_only s,
      job_mesh_and_texture = mesh_and_texture s, job_voxel_mode = voxel_mode s,
      job_voxel_res = voxel_res s\<rparr>"

text \<open>
  Two states of the form: prompts of whitespace only (blanks, a tab, a no-break space and
  NEL), and a text prompt with blanks around it.
\<close>

definition blank_prompts :: app where
  "blank_prompts =
     (init env0)\<lparr>text_prompt := ''   '', image_path := [CHR 0x09, CHR 0xA0, CHR 0x85, CHR '' '']\<rparr>"

definition padded_prompt :: app where
  "padded_prompt = (init env0)\<lparr>text_prompt := ''  a red chair '', output_dir := ''/out''\<rparr>"

text \<open>A state in which the chair job is running and the cat job waits on the queue.\<close>

definition busy :: app where
  "busy = (init env0)\<lparr>jobs := [job_cat], processing := True,
            threads := [\<lparr>thread_job = job_chair, thread_preset = ''auto''\<rparr>]\<rparr>"

text \<open>
  \<open>running_after n fx\<close> counts the jobs running after the trace \<open>fx\<close>, with \<open>n\<close>
  running before it. The queue events are the puts, the thread starts and the thread
  ends.
\<close>

fun running_after :: "nat \<Rightarrow> effect list \<Rightarrow> nat" where
  "running_after n [] = n"
| "running_after n (ThreadStart j # fx) = running_after (Suc n) fx"
| "running_after n (ThreadExit j # fx) = running_after (n - 1) fx"
| "running_after n (x # fx) = running_after n fx"

fun is_queue_event :: "effect \<Rightarrow> bool" where
  "is_queue_event (QueuePut j) = True"
| "is_queue_event (ThreadStart j) = True"
| "is_queue_event (ThreadExit j) = True"
| "is_queue_event x = False"

text \<open>What holds of the queue in every state the application reaches.\<close>

definition queue_inv :: "app \<Rightarrow> bool" where
  "queue_inv s \<longleftrightarrow>
     one_at_a_time 0 (trace s) \<and>
     running_after 0 (trace s) = length (threads s) \<and>
     length (threads s) \<le> 1 \<and>
     (\<not> processing s \<longrightarrow> threads s = []) \<and>
     started (trace s) @ jobs s = submitted (trace s)"

text \<open>
  The scenario of two jobs: a text job without voxel export is submitted and started, an
  image job with voxel export is submitted while the first runs; the first fails, the
  timer starts the second, the second succeeds.
\<close>

definition two_jobs :: "input list" where
  "two_jobs =
     [SetOutputDir ''/out'', SetTextPrompt ''a red chair'', SetVoxelMode False, Generate (Inr 0),
      SetTextPrompt [], SetImagePath ''/tmp/cat.png'', SetVoxelMode True,
      SetMeshAndTexture False, Generate (Inr 2),
      Worker 0 world_fail, Poll, Worker 0 world_ok]"

text \<open>
  A job with both prompts, submitted while the preset \<open>text.yaml\<close> is selected and
  another job is running; the preset is set back to \<open>auto\<close> before its thread runs.
\<close>

definition job_both :: job where
  "job_both = \<lparr>job_text = ''a red chair'', job_img = ''/tmp/cat.png'', job_out_dir = ''/out'',
                job_mesh_name = ''dreamasset_1'', job_mesh_only = True, job_texture_only = False,
                job_mesh_and_texture = True, job_voxel_mode = False, job_voxel_res = 256\<rparr>"

definition submit_with_override :: "input list" where
  "submit_with_override =
     [SetOutputDir ''/out'', SetTextPrompt ''a red chair'', SetVoxelMode False, Generate (Inr 0),
      SetImagePath ''/tmp/cat.png'', SetConfigPreset ''text.yaml'', Generate (Inr 1)]"

definition then_auto :: "input list" where
  "then_auto = [SetConfigPreset ''auto'', Worker 0 world_ok, Poll, Worker 0 world_ok]"

definition overridden :: app where
  "overridden = (init env0)\<lparr>config_preset := ''text.yaml''\<rparr>"

text \<open>
  The presets the application holds: the one selected and the ones its running threads
  have read are values of the combobox.
\<close>

definition preset_inv :: "app \<Rightarrow> bool" where
  "preset_inv s \<longleftrightarrow>
     config_preset s \<in> set config_options \<and>
     list_all (\<lambda>t. thread_preset t \<in> set config_options) (threads s)"

section \<open>Lemmas about the pipeline\<close>

lemma calls_append: "calls (xs @ ys) = calls xs @ calls ys"
  by (induction xs rule: calls.induct) auto

lemma emit_simps [simp]:
  "trace (emit fx s) = trace s @ fx"
  "jobs (emit fx s) = jobs s"
  "processing (emit fx s) = processing s"
  "threads (emit fx s) = threads s"
  "config_preset (emit fx s) = config_preset s"
  "job_list (emit fx s) = job_list s"
  by (simp_all add: emit_def)

lemma show_preview_simps [simp]:
  "trace (show_preview w p s) = trace s"
  "jobs (show_preview w p s) = jobs s"
  "processing (show_preview w p s) = processing s"
  "threads (show_preview w p s) = threads s"
  "config_preset (show_preview w p s) = config_preset s"
  "job_list (show_preview w p s) = job_list s"
  by (simp_all add: show_preview_def split: sum.splits)

lemma report_success_simps [simp]:
  "trace (report_success w p ps s) = trace s @
     [ShowInfo ''Success''
        (''Generation complete!'' @ [CHR 0x0A] @ ''Files:'' @ [CHR 0x0A] @ str_join [CHR 0x0A] ps)]"
  "jobs (report_success w p ps s) = jobs s"
  "processing (report_success w p ps s) = processing s"
  "threads (report_success w p ps s) = threads s"
  "config_preset (report_success w p ps s) = config_preset s"
  "job_list (report_success w p ps s) = job_list s"
  by (simp_all add: report_success_def)

text \<open>The three ways \<open>run_dreamgaussian\<close> ends.\<close>

lemma generate_cases:
  obtains (raised) ex where
      "subprocess_run w (job_args e (config_preset s) j) = Inl ex"
      "generate w e s j =
         (Inl ex, [PrintArgs (job_args e (config_preset s) j),
                   SubprocessRun (job_args e (config_preset s) j)])"
  | (nonzero) r where
      "subprocess_run w (job_args e (config_preset s) j) = Inr r"
      "returncode r \<noteq> 0"
      "generate w e s j =
         (Inl ''DreamGaussian failed!'',
          [PrintArgs (job_args e (config_preset s) j),
           SubprocessRun (job_args e (config_preset s) j),
           Print (stdout r), Print (stderr r)])"
  | (zero) r where
      "subprocess_run w (job_args e (config_preset s) j) = Inr r"
      "returncode r = 0"
      "generate w e s j =
         (Inr (obj_path_of j, tex_path_of j),
          [PrintArgs (job_args e (config_preset s) j),
           SubprocessRun (job_args e (config_preset s) j),
           Print (stdout r)])"
proof (cases "subprocess_run w (job_args e (config_preset s) j)")
  case (Inl ex)
  then show ?thesis
    using raised by (simp add: generate_def job_args_def run_dreamgaussian_def Let_def)
next
  case (Inr r)
  then show ?thesis
    using nonzero zero
    by (cases "returncode r = 0")
      (simp_all add: generate_def job_args_def run_dreamgaussian_def Let_def
        obj_path_of_def tex_path_of_def)
qed

lemma calls_generate: "calls (snd (generate w e s j)) = [job_args e (config_preset s) j]"
  by (cases rule: generate_cases [of w e s j]) simp_all

text \<open>The three ways \<open>obj_to_vox\<close> ends.\<close>

lemma obj_to_vox_cases:
  obtains (not_installed)
      "\<not> obj2vox_importable w"
      "obj_to_vox w obj_path vox_path res =
         (Inl ''You must install 'obj2vox' package (pip install obj2vox)!'', [ImportObj2Vox])"
  | (raised) ex where
      "obj2vox_importable w"
      "obj2vox w obj_path vox_path res = Some ex"
      "obj_to_vox w obj_path vox_path res =
         (Inl ex,
          [ImportObj2Vox,
           Print (''Converting '' @ obj_path @ '' to '' @ vox_path @ '' at resolution ''
                  @ str_int res @ ''...''),
           Obj2Vox obj_path vox_path res])"
  | (converted)
      "obj2vox_importable w"
      "obj2vox w obj_path vox_path res = None"
      "obj_to_vox w obj_path vox_path res =
         (Inr vox_path,
          [ImportObj2Vox,
           Print (''Converting '' @ obj_path @ '' to '' @ vox_path @ '' at resolution ''
                  @ str_int res @ ''...''),
           Obj2Vox obj_path vox_path res])"
proof (cases "obj2vox_importable w")
  case False
  then show ?thesis using not_installed by (simp add: obj_to_vox_def)
next
  case True
  then show ?thesis
    using raised converted
    by (cases "obj2vox w obj_path vox_path res") (simp_all add: obj_to_vox_def Let_def)
qed

lemma calls_obj_to_vox: "calls (snd (obj_to_vox w obj_path vox_path res)) = []"
  by (cases rule: obj_to_vox_cases [of w obj_path vox_path res]) simp_all

text \<open>The four ways the \<open>try\<close> block of \<open>run_job\<close> ends.\<close>

lemma run_job_try_cases:
  obtains (generation_failed) ex fx where
      "generate w e s j = (Inl ex, fx)"
      "run_job_try w e s j = (Inl ex, emit fx s)"
  | (no_voxel) obj_path tex_path fx where
      "generate w e s j = (Inr (obj_path, tex_path), fx)"
      "\<not> job_voxel_mode j"
      "run_job_try w e s j =
         (Inr ([obj_path]
               @ (if job_texture_only j \<or> job_mesh_and_texture j then [tex_path] else [])),
          report_success w obj_path
            ([obj_path]
             @ (if job_texture_only j \<or> job_mesh_and_texture j then [tex_path] else []))
            (emit fx s))"
  | (conversion_failed) obj_path tex_path fx ex fx2 where
      "generate w e s j = (Inr (obj_path, tex_path), fx)"
      "job_voxel_mode j"
      "obj_to_vox w obj_path (vox_path_of j) (job_voxel_res j) = (Inl ex, fx2)"
      "run_job_try w e s j = (Inl ex, emit fx2 (emit fx s))"
  | (voxel) obj_path tex_path fx v fx2 where
      "generate w e s j = (Inr (obj_path, tex_path), fx)"
      "job_voxel_mode j"
      "obj_to_vox w obj_path (vox_path_of j) (job_voxel_res j) = (Inr v, fx2)"
      "run_job_try w e s j =
         (Inr ([obj_path]
               @ (if job_texture_only j \<or> job_mesh_and_texture j then [tex_path] else [])
               @ [vox_path_of j]),
          report_success w obj_path
            ([obj_path]
             @ (if job_texture_only j \<or> job_mesh_and_texture j then [tex_path] else [])
             @ [vox_path_of j])
            (emit fx2 (emit fx s)))"
proof (cases "generate w e s j")
  case (Pair r fx)
  show ?thesis
  proof (cases r)
    case (Inl ex)
    with Pair show ?thesis
      using generation_failed by (simp add: run_job_try_def generate_def)
  next
    case (Inr paths)
    obtain obj_path tex_path where paths: "paths = (obj_path, tex_path)"
      by (cases paths)
    show ?thesis
    proof (cases "job_voxel_mode j")
      case False
      with Pair Inr paths show ?thesis
        using no_voxel by (simp add: run_job_try_def generate_def Let_def)
    next
      case True
      obtain r2 fx2 where c: "obj_to_vox w obj_path (vox_path_of j) (job_voxel_res j) = (r2, fx2)"
        by (cases "obj_to_vox w obj_path (vox_path_of j) (job_voxel_res j)")
      show ?thesis
      proof (cases r2)
        case (Inl ex)
        with Pair Inr paths True c show ?thesis
          using conversion_failed [of obj_path tex_path fx ex fx2]
          by (simp add: run_job_try_def generate_def vox_path_of_def Let_def)
      next
        case (Inr v)
        with Pair \<open>r = Inr paths\<close> paths True c show ?thesis
          using voxel [of obj_path tex_path fx v fx2]
          by (simp add: run_job_try_def generate_def vox_path_of_def Let_def)
      qed
    qed
  qed
qed

text \<open>What \<open>run_job\<close> leaves behind, given how its \<open>try\<close> block ended.\<close>

lemma run_job_Inl:
  "run_job_try w e s j = (Inl ex, s1) \<Longrightarrow>
   run_job w e s j =
     emit [ThreadExit j]
       ((emit [ShowError ''Error'' (''Job failed: '' @ ex)] s1)\<lparr>processing := False\<rparr>)"
  by (simp add: run_job_def)

lemma run_job_Inr:
  "run_job_try w e s j = (Inr ps, s1) \<Longrightarrow>
   run_job w e s j = emit [ThreadExit j] (s1\<lparr>processing := False\<rparr>)"
  by (simp add: run_job_def)

lemma trace_processing_update [simp]: "trace (s\<lparr>processing := b\<rparr>) = trace s"
  by simp

lemma calls_run_job:
  "calls (trace (run_job w e s j)) = calls (trace s) @ [job_args e (config_preset s) j]"
proof (cases rule: run_job_try_cases [of w e s j])
  case (generation_failed ex fx)
  then show ?thesis
    using calls_generate [of w e s j] by (simp add: run_job_Inl calls_append)
next
  case (no_voxel obj_path tex_path fx)
  then show ?thesis
    using calls_generate [of w e s j] by (simp add: run_job_Inr calls_append)
next
  case (conversion_failed obj_path tex_path fx ex fx2)
  then show ?thesis
    using calls_generate [of w e s j]
      calls_obj_to_vox [of w obj_path "vox_path_of j" "job_voxel_res j"]
    by (simp add: run_job_Inl calls_append)
next
  case (voxel obj_path tex_path fx v fx2)
  then show ?thesis
    using calls_generate [of w e s j]
      calls_obj_to_vox [of w obj_path "vox_path_of j" "job_voxel_res j"]
    by (simp add: run_job_Inr calls_append)
qed

section \<open>The command line of the generation script\<close>

text \<open>
  Claim C9. \<open>run_dreamgaussian\<close> runs one subprocess; after the interpreter and the
  script, its arguments are \<open>--config\<close> with the selected file, \<open>--output_dir\<close> with
  the output directory, \<open>--name\<close> with the asset name, one of \<open>--hd\<close> and \<open>--low\<close>,
  then \<open>--text\<close> with the text prompt exactly when it is not empty and \<open>--image\<close>
  with the image path exactly when it is not empty. A job's thread runs this command with
  the job's fields and \<open>--hd\<close>. When the function returns, the paths it reports are the
  output directory joined with the name and \<open>.obj\<close> or \<open>.png\<close>, which is
  \<open>out_dir/name.obj\<close> and \<open>out_dir/name.png\<close> for a directory that does not end in a
  separator and a name that does not start with one.
\<close>

theorem command_line:
  "calls (snd (run_dreamgaussian w e t i od mn hq p)) =
     [[executable e, DREAMGAUSSIAN_SCRIPT e, ''--config'', select_config e p t i,
       ''--output_dir'', od, ''--name'', mn, if hq then ''--hd'' else ''--low'']
      @ (if t \<noteq> [] then [''--text'', t] else [])
      @ (if i \<noteq> [] then [''--image'', i] else [])] \<and>
   calls (trace (run_job w e s j)) = calls (trace s) @
     [[executable e, DREAMGAUSSIAN_SCRIPT e, ''--config'',
       select_config e (config_preset s) (job_text j) (job_img j),
       ''--output_dir'', job_out_dir j, ''--name'', job_mesh_name j, ''--hd'']
      @ (if job_text j \<noteq> [] then [''--text'', job_text j] else [])
      @ (if job_img j \<noteq> [] then [''--image'', job_img j] else [])] \<and>
   (fst (run_dreamgaussian w e t i od mn hq p) = Inr (obj_path, tex_path) \<longrightarrow>
      obj_path = path_join od (mn @ ''.obj'') \<and> tex_path = path_join od (mn @ ''.png'')) \<and>
   (od \<noteq> [] \<and> last od \<noteq> CHR ''/'' \<and> (mn = [] \<or> hd mn \<noteq> CHR ''/'') \<longrightarrow>
      path_join od (mn @ ''.obj'') = od @ ''/'' @ mn @ ''.obj'' \<and>
      path_join od (mn @ ''.png'') = od @ ''/'' @ mn @ ''.png'')"
proof -
  have a: "calls (snd (run_dreamgaussian w e t i od mn hq p)) =
     [assemble_args e (select_config e p t i) t i od mn hq]"
    by (simp add: run_dreamgaussian_def Let_def split: sum.splits)
  have c: "fst (run_dreamgaussian w e t i od mn hq p) = Inr (obj_path, tex_path) \<longrightarrow>
      obj_path = path_join od (mn @ ''.obj'') \<and> tex_path = path_join od (mn @ ''.png'')"
    by (auto simp: run_dreamgaussian_def Let_def split: sum.splits if_splits)
  have d: "od \<noteq> [] \<and> last od \<noteq> CHR ''/'' \<and> (mn = [] \<or> hd mn \<noteq> CHR ''/'') \<longrightarrow>
      path_join od (mn @ ''.obj'') = od @ ''/'' @ mn @ ''.obj'' \<and>
      path_join od (mn @ ''.png'') = od @ ''/'' @ mn @ ''.png''"
    by (cases mn) (auto simp: path_join_def)
  from a have a': "calls (snd (run_dreamgaussian w e t i od mn hq p)) =
     [[executable e, DREAMGAUSSIAN_SCRIPT e, ''--config'', select_config e p t i,
       ''--output_dir'', od, ''--name'', mn, if hq then ''--hd'' else ''--low'']
      @ (if t \<noteq> [] then [''--text'', t] else [])
      @ (if i \<noteq> [] then [''--image'', i] else [])]"
    by (simp only: assemble_args_def)
  have b: "calls (trace (run_job w e s j)) = calls (trace s) @
     [[executable e, DREAMGAUSSIAN_SCRIPT e, ''--config'',
       select_config e (config_preset s) (job_text j) (job_img j),
       ''--output_dir'', job_out_dir j, ''--name'', job_mesh_name j, ''--hd'']
      @ (if job_text j \<noteq> [] then [''--text'', job_text j] else [])
      @ (if job_img j \<noteq> [] then [''--image'', job_img j] else [])]"
    unfolding calls_run_job job_args_def assemble_args_def by simp
  from a' b c d show ?thesis by blast
qed

text \<open>A successful run with both prompts, the low quality flag and a preset.\<close>

theorem command_line_witness:
  "calls (snd (run_dreamgaussian world_ok env0 ''a red chair'' ''/tmp/cat.png'' ''/out''
       ''dreamasset_0'' False ''text.yaml'')) =
     [[''python3'', ''/work/run_dreamgaussian.py'', ''--config'', ''/work/configs/text.yaml'',
       ''--output_dir'', ''/out'', ''--name'', ''dreamasset_0'', ''--low'',
       ''--text'', ''a red chair'', ''--image'', ''/tmp/cat.png'']] \<and>
   fst (run_dreamgaussian world_ok env0 ''a red chair'' ''/tmp/cat.png'' ''/out''
       ''dreamasset_0'' False ''text.yaml'') =
     Inr (''/out/dreamasset_0.obj'', ''/out/dreamasset_0.png'')"
  using command_line [where w = world_ok and e = env0 and t = "''a red chair''"
      and i = "''/tmp/cat.png''" and od = "''/out''" and mn = "''dreamasset_0''" and hq = False
      and p = "''text.yaml''" and obj_path = "''/out/dreamasset_0.obj''"
      and tex_path = "''/out/dreamasset_0.png''" and s = "init env0" and j = job_chair]
  by (simp add: run_dreamgaussian_def world_ok_def tool_exit_def env0_def select_config_def
      path_join_def assemble_args_def Let_def)

section \<open>Failure of the generation script\<close>

lemma generate_nonzero:
  assumes "subprocess_run w (job_args e (config_preset s) j) = Inr r" and "returncode r \<noteq> 0"
  shows "generate w e s j =
         (Inl ''DreamGaussian failed!'',
          [PrintArgs (job_args e (config_preset s) j),
           SubprocessRun (job_args e (config_preset s) j),
           Print (stdout r), Print (stderr r)])"
  using assms by (cases rule: generate_cases [of w e s j]) simp_all

lemma run_job_try_generation_failed:
  "generate w e s j = (Inl ex, fx) \<Longrightarrow> run_job_try w e s j = (Inl ex, emit fx s)"
  by (simp add: run_job_try_def generate_def)

lemma job_args_chair:
  "job_args env0 ''auto'' job_chair =
     [''python3'', ''/work/run_dreamgaussian.py'', ''--config'', ''/work/configs/text.yaml'',
      ''--output_dir'', ''/out'', ''--name'', ''dreamasset_0'', ''--hd'', ''--text'', ''a red chair'']"
  by (simp add: job_args_def assemble_args_def select_config_def path_join_def env0_def
      job_chair_def)

lemma config_preset_init [simp]: "config_preset (init e) = ''auto''"
  by (simp add: init_def)

lemma trace_init [simp]: "trace (init e) = []"
  by (simp add: init_def)

lemma job_chair_simps [simp]:
  "job_text job_chair = ''a red chair''" "job_img job_chair = []"
  "job_out_dir job_chair = ''/out''" "job_mesh_name job_chair = ''dreamasset_0''"
  "job_mesh_only job_chair" "\<not> job_texture_only job_chair" "job_mesh_and_texture job_chair"
  "\<not> job_voxel_mode job_chair" "job_voxel_res job_chair = 256"
  by (simp_all add: job_chair_def)

text \<open>
  Claim C3, as the code has it. When the generation script exits with a status other
  than zero, the \<open>try\<close> block of the job ends with the exception
  \<open>DreamGaussian failed!\<close>, and the job's thread does exactly this: it prints the
  command, runs it, prints the captured standard output and then the captured standard
  error verbatim on the console, shows one error dialog with the fixed text
  \<open>Job failed: DreamGaussian failed!\<close>, and ends. No success dialog is shown, and no
  conversion or preview takes place.
\<close>

theorem generation_failure_reported:
  assumes "subprocess_run w (job_args e (config_preset s) j) = Inr r" and "returncode r \<noteq> 0"
  shows "fst (run_job_try w e s j) = Inl ''DreamGaussian failed!'' \<and>
         trace (run_job w e s j) = trace s @
           [PrintArgs (job_args e (config_preset s) j),
            SubprocessRun (job_args e (config_preset s) j),
            Print (stdout r), Print (stderr r),
            ShowError ''Error'' ''Job failed: DreamGaussian failed!'',
            ThreadExit j]"
proof -
  note t = run_job_try_generation_failed [OF generate_nonzero [OF assms]]
  show ?thesis
    by (simp add: t run_job_Inl [OF t])
qed

text \<open>A script that exits with status 1 after writing to its standard error.\<close>

theorem generation_failure_reported_witness:
  "trace (run_job world_fail env0 (init env0) job_chair) =
     [PrintArgs (job_args env0 ''auto'' job_chair),
      SubprocessRun (job_args env0 ''auto'' job_chair),
      Print ''iter 500'', Print ''CUDA out of memory'',
      ShowError ''Error'' ''Job failed: DreamGaussian failed!'',
      ThreadExit job_chair]"
  using generation_failure_reported [of world_fail env0 "init env0" job_chair
      "\<lparr>returncode = 1, stdout = ''iter 500'', stderr = ''CUDA out of memory''\<rparr>"]
  by (simp add: world_fail_def tool_exit_def)

text \<open>
  Claim C3 as stated says that the failure shown to the user contains the captured
  standard error. Here the script fails with \<open>CUDA out of memory\<close> on its standard
  error; the only notification is the error dialog, and its text does not contain it.
\<close>

theorem stderr_not_shown_counterexample:
  "subprocess_run world_fail (job_args env0 (config_preset (init env0)) job_chair) =
     Inr \<lparr>returncode = 1, stdout = ''iter 500'', stderr = ''CUDA out of memory''\<rparr> \<and>
   filter is_notification (trace (run_job world_fail env0 (init env0) job_chair)) =
     [ShowError ''Error'' ''Job failed: DreamGaussian failed!''] \<and>
   \<not> sublist ''CUDA out of memory'' ''Job failed: DreamGaussian failed!''"
proof -
  have r: "subprocess_run world_fail (job_args env0 (config_preset (init env0)) job_chair) =
     Inr \<lparr>returncode = 1, stdout = ''iter 500'', stderr = ''CUDA out of memory''\<rparr>"
    by (simp add: world_fail_def tool_exit_def)
  have g: "generate world_fail env0 (init env0) job_chair =
         (Inl ''DreamGaussian failed!'',
          [PrintArgs (job_args env0 ''auto'' job_chair),
           SubprocessRun (job_args env0 ''auto'' job_chair),
           Print ''iter 500'', Print ''CUDA out of memory''])"
    using generate_nonzero [OF r] by simp
  note t = run_job_try_generation_failed [OF g]
  have n: "filter is_notification (trace (run_job world_fail env0 (init env0) job_chair)) =
     [ShowError ''Error'' ''Job failed: DreamGaussian failed!'']"
    by (simp add: run_job_Inl [OF t])
  have c: "\<not> sublist ''CUDA out of memory'' ''Job failed: DreamGaussian failed!''"
    by (simp add: sublist_code)
  from r n c show ?thesis by blast
qed

section \<open>Voxel conversion only on request\<close>

text \<open>
  Claim C8. For a job with \<open>voxel_mode\<close> false, the thread neither imports nor
  calls \<open>obj2vox\<close>: \<open>obj_to_vox\<close> is not entered, so the conversions in the trace
  after the job are those that were there before it.
\<close>

theorem voxel_disabled_no_conversion:
  assumes "\<not> job_voxel_mode j"
  shows "filter is_conversion (trace (run_job w e s j)) = filter is_conversion (trace s)"
proof -
  have g: "filter is_conversion (snd (generate w e s j)) = []"
    by (cases rule: generate_cases [of w e s j]) simp_all
  show ?thesis
  proof (cases rule: run_job_try_cases [of w e s j])
    case (generation_failed ex fx)
    then show ?thesis using g by (simp add: run_job_Inl)
  next
    case (no_voxel obj_path tex_path fx)
    then show ?thesis using g by (simp add: run_job_Inr)
  next
    case (conversion_failed obj_path tex_path fx ex fx2)
    then show ?thesis using assms by simp
  next
    case (voxel obj_path tex_path fx v fx2)
    then show ?thesis using assms by simp
  qed
qed

text \<open>A job without voxel export, run from the initial state: no conversion at all.\<close>

theorem voxel_disabled_no_conversion_witness:
  "\<not> job_voxel_mode job_chair \<and>
   filter is_conversion (trace (run_job world_ok env0 (init env0) job_chair)) = []"
  using voxel_disabled_no_conversion [of job_chair world_ok env0 "init env0"]
  by simp

text \<open>
  With \<open>voxel_mode\<close> set and a generation that succeeds, the converter is reached.
\<close>

lemma voxel_enabled_converts:
  assumes "job_voxel_mode j" and "subprocess_run w (job_args e (config_preset s) j) = Inr r"
    and "returncode r = 0"
  shows "ImportObj2Vox \<in> set (trace (run_job w e s j))"
proof -
  have g: "generate w e s j =
         (Inr (obj_path_of j, tex_path_of j),
          [PrintArgs (job_args e (config_preset s) j),
           SubprocessRun (job_args e (config_preset s) j), Print (stdout r)])"
    using assms(2,3) by (cases rule: generate_cases [of w e s j]) simp_all
  have v: "ImportObj2Vox \<in> set (snd (obj_to_vox w a b c))" for a b c
    by (cases rule: obj_to_vox_cases [of w a b c]) simp_all
  show ?thesis
  proof (cases rule: run_job_try_cases [of w e s j])
    case (generation_failed ex fx)
    then show ?thesis using g by simp
  next
    case (no_voxel obj_path tex_path fx)
    then show ?thesis using assms(1) by simp
  next
    case (conversion_failed obj_path tex_path fx ex fx2)
    then show ?thesis
      using v [of obj_path "vox_path_of j" "job_voxel_res j"] by (simp add: run_job_Inl)
  next
    case (voxel obj_path tex_path fx v' fx2)
    then show ?thesis
      using v [of obj_path "vox_path_of j" "job_voxel_res j"] by (simp add: run_job_Inr)
  qed
qed

section \<open>Submission\<close>

lemma strip_empty_iff: "strip s = [] \<longleftrightarrow> (\<forall>c\<in>set s. is_space c)"
proof
  assume "strip s = []"
  then have "dropWhile is_space (rev (dropWhile is_space s)) = []"
    by (simp add: strip_def)
  then have "\<forall>c\<in>set (dropWhile is_space s). is_space c"
    by (simp add: dropWhile_eq_Nil_conv)
  then have "dropWhile is_space s = []"
    by (metis hd_dropWhile hd_in_set)
  then show "\<forall>c\<in>set s. is_space c"
    by (simp add: dropWhile_eq_Nil_conv)
next
  assume "\<forall>c\<in>set s. is_space c"
  then have d: "dropWhile is_space s = []"
    by (simp add: dropWhile_eq_Nil_conv)
  show "strip s = []"
    unfolding strip_def d by simp
qed

lemma strip_Nil [simp]: "strip [] = []"
  by (simp add: strip_def)

lemma enqueue_job_rejects:
  "strip (text_prompt s) = [] \<Longrightarrow> strip (image_path s) = [] \<Longrightarrow>
   enqueue_job listing s = emit [ShowWarning ''No prompt'' ''Provide text and/or image prompt.''] s"
  by (simp add: enqueue_job_def)

lemma submitted_append: "submitted (xs @ ys) = submitted xs @ submitted ys"
  by (induction xs rule: submitted.induct) auto

lemma started_append: "started (xs @ ys) = started xs @ started ys"
  by (induction xs rule: started.induct) auto

lemma init_simps [simp]:
  "jobs (init e) = []" "text_prompt (init e) = []" "image_path (init e) = []"
  "threads (init e) = []" "processing (init e) = False" "job_list (init e) = []"
  "output_dir (init e) = getcwd e"
  by (simp_all add: init_def)

text \<open>
  Claim C5. When the text prompt and the image prompt are both unset (empty),
  \<open>enqueue_job\<close> shows the warning and returns: the state is the one before with the
  warning added to the trace. The queue and its length are unchanged, nothing is put on
  the queue, no thread is started, and the list box is unchanged, whatever the output
  directory holds.
\<close>

theorem no_prompt_rejected:
  assumes "text_prompt s = []" and "image_path s = []"
  shows "enqueue_job listing s =
           emit [ShowWarning ''No prompt'' ''Provide text and/or image prompt.''] s \<and>
         jobs (enqueue_job listing s) = jobs s \<and>
         length (jobs (enqueue_job listing s)) = length (jobs s) \<and>
         submitted (trace (enqueue_job listing s)) = submitted (trace s) \<and>
         started (trace (enqueue_job listing s)) = started (trace s) \<and>
         threads (enqueue_job listing s) = threads s \<and>
         job_list (enqueue_job listing s) = job_list s"
proof -
  have "enqueue_job listing s =
           emit [ShowWarning ''No prompt'' ''Provide text and/or image prompt.''] s"
    using assms by (simp add: enqueue_job_rejects)
  then show ?thesis
    by (simp add: submitted_append started_append)
qed

text \<open>Pressing Generate in the initial state, where both prompts are empty.\<close>

theorem no_prompt_rejected_witness:
  "text_prompt (init env0) = [] \<and> image_path (init env0) = [] \<and>
   jobs (enqueue_job (Inr 3) (init env0)) = [] \<and>
   trace (enqueue_job (Inr 3) (init env0)) =
     [ShowWarning ''No prompt'' ''Provide text and/or image prompt.'']"
  using no_prompt_rejected [of "init env0" "Inr 3"]
  by simp

section \<open>Whitespace around the prompts\<close>

lemma process_next_job_simps:
  "submitted (trace (process_next_job s)) = submitted (trace s)"
  "started (trace (process_next_job s)) = started (trace s) @ take 1 (jobs s)"
  "jobs (process_next_job s) = drop 1 (jobs s)"
  "threads (process_next_job s) =
     threads s @ map (\<lambda>j. \<lparr>thread_job = j, thread_preset = config_preset s\<rparr>) (take 1 (jobs s))"
  "processing (process_next_job s) = (processing s \<or> jobs s \<noteq> [])"
  "config_preset (process_next_job s) = config_preset s"
  by (simp_all add: process_next_job_def submitted_append started_append split: list.splits)

lemma enqueue_job_accepts:
  assumes "\<not> (strip (text_prompt s) = [] \<and> strip (image_path s) = [])"
  shows "enqueue_job (Inr n) s =
    (if \<not> processing s
     then process_next_job
       ((emit [QueuePut (submission n s)] (s\<lparr>jobs := jobs s @ [submission n s]\<rparr>))
          \<lparr>job_list := job_list s
             @ [''Job '' @ str_nat (length (job_list s) + 1) @ '': ''
                @ ''dreamasset_'' @ str_nat n]\<rparr>)
     else (emit [QueuePut (submission n s)] (s\<lparr>jobs := jobs s @ [submission n s]\<rparr>))
          \<lparr>job_list := job_list s
             @ [''Job '' @ str_nat (length (job_list s) + 1) @ '': ''
                @ ''dreamasset_'' @ str_nat n]\<rparr>)"
  using assms unfolding enqueue_job_def submission_def Let_def
  by (cases "strip (text_prompt s) = []") simp_all

lemma submitted_enqueue_job:
  assumes "\<not> (strip (text_prompt s) = [] \<and> strip (image_path s) = [])"
  shows "submitted (trace (enqueue_job (Inr n) s)) = submitted (trace s) @ [submission n s]"
  unfolding enqueue_job_accepts [OF assms]
  by (simp add: process_next_job_simps submitted_append)

lemma rev_dropWhile_takeWhile:
  "rev (dropWhile P (rev l)) @ rev (takeWhile P (rev l)) = l"
proof -
  have "rev (takeWhile P (rev l) @ dropWhile P (rev l)) = rev (rev l)"
    by (simp only: takeWhile_dropWhile_id)
  then show ?thesis
    by (simp only: rev_append rev_rev_ident)
qed

lemma strip_suffix: "dropWhile is_space x = strip x @ rev (takeWhile is_space (rev (dropWhile is_space x)))"
  unfolding strip_def by (simp only: rev_dropWhile_takeWhile)

lemma strip_decomposition:
  "\<exists>a b. x = a @ strip x @ b \<and> list_all is_space a \<and> list_all is_space b"
proof -
  let ?a = "takeWhile is_space x"
  let ?b = "rev (takeWhile is_space (rev (dropWhile is_space x)))"
  have "x = ?a @ dropWhile is_space x"
    by simp
  then have 1: "x = ?a @ strip x @ ?b"
    using strip_suffix [of x] by simp
  have 3: "list_all is_space ?a"
    by (auto simp: list_all_iff dest: set_takeWhileD)
  have 4: "list_all is_space ?b"
    by (auto simp: list_all_iff dest: set_takeWhileD)
  from 1 3 4 show ?thesis by blast
qed

lemma strip_ends:
  assumes "strip x \<noteq> []"
  shows "\<not> is_space (hd (strip x))" "\<not> is_space (last (strip x))"
proof -
  let ?u = "dropWhile is_space x"
  let ?v = "dropWhile is_space (rev ?u)"
  have v: "?v \<noteq> []" using assms by (simp add: strip_def)
  then have "\<not> is_space (hd ?v)" by (rule hd_dropWhile)
  then show "\<not> is_space (last (strip x))"
    using v by (simp add: strip_def last_rev)
  have u: "?u \<noteq> []"
  proof
    assume e: "?u = []"
    have "?v = []" unfolding e by simp
    with v show False by contradiction
  qed
  then have h: "\<not> is_space (hd ?u)" by (rule hd_dropWhile)
  have "hd ?u = hd (strip x)"
    using assms strip_suffix [of x] by (metis hd_append2)
  with h show "\<not> is_space (hd (strip x))" by simp
qed

lemma is_space_code_points:
  "is_space c \<longleftrightarrow> (of_char c :: nat) \<in> {9, 10, 11, 12, 13, 28, 29, 30, 31, 32, 133, 160}"
proof -
  have "(9 \<le> n \<and> n \<le> 13) \<or> (28 \<le> n \<and> n \<le> 32) \<or> n = 133 \<or> n = 160 \<longleftrightarrow>
      n \<in> {9, 10, 11, 12, 13, 28, 29, 30, 31, 32, 133, 160}" for n :: nat
    by auto
  then show ?thesis by (simp add: is_space_def Let_def)
qed

text \<open>
  Claim C10. Both prompts are stripped before the test for presence. When each of them
  consists of whitespace only, \<open>enqueue_job\<close> rejects the submission with the same
  warning, and leaves the same queue and the same trace, as when both are empty.
  Otherwise, with a listing of \<open>n\<close> entries, the job put on the queue carries the
  stripped text and the stripped image path, and when a thread runs that job, the stripped
  values are the ones that select the configuration and that follow \<open>--text\<close> and
  \<open>--image\<close> on the command line. The stripped value of a prompt is the prompt without
  a prefix and a suffix of whitespace, and it neither starts nor ends with whitespace;
  whitespace is a character with one of the code points 9 to 13, 28 to 32, 133 and 160.
\<close>

theorem prompts_stripped:
  "((\<forall>c\<in>set (text_prompt s). is_space c) \<and> (\<forall>c\<in>set (image_path s). is_space c) \<longrightarrow>
      enqueue_job listing s =
        emit [ShowWarning ''No prompt'' ''Provide text and/or image prompt.''] s \<and>
      jobs (enqueue_job listing s) = jobs (enqueue_job listing (s\<lparr>text_prompt := [], image_path := []\<rparr>)) \<and>
      trace (enqueue_job listing s) = trace (enqueue_job listing (s\<lparr>text_prompt := [], image_path := []\<rparr>))) \<and>
   (\<not> ((\<forall>c\<in>set (text_prompt s). is_space c) \<and> (\<forall>c\<in>set (image_path s). is_space c)) \<longrightarrow>
      submitted (trace (enqueue_job (Inr n) s)) = submitted (trace s) @ [submission n s]) \<and>
   job_text (submission n s) = strip (text_prompt s) \<and>
   job_img (submission n s) = strip (image_path s) \<and>
   calls (trace (run_job w e s' (submission n s))) = calls (trace s') @
     [assemble_args e
        (select_config e (config_preset s') (strip (text_prompt s)) (strip (image_path s)))
        (strip (text_prompt s)) (strip (image_path s)) (output_dir s)
        (''dreamasset_'' @ str_nat n) True] \<and>
   (\<exists>a b. text_prompt s = a @ strip (text_prompt s) @ b \<and>
      list_all is_space a \<and> list_all is_space b) \<and>
   (\<exists>a b. image_path s = a @ strip (image_path s) @ b \<and>
      list_all is_space a \<and> list_all is_space b) \<and>
   (strip (text_prompt s) \<noteq> [] \<longrightarrow>
      \<not> is_space (hd (strip (text_prompt s))) \<and> \<not> is_space (last (strip (text_prompt s)))) \<and>
   (strip (image_path s) \<noteq> [] \<longrightarrow>
      \<not> is_space (hd (strip (image_path s))) \<and> \<not> is_space (last (strip (image_path s)))) \<and>
   (is_space c \<longleftrightarrow>
      (of_char c :: nat) \<in> {9, 10, 11, 12, 13, 28, 29, 30, 31, 32, 133, 160})"
proof -
  have a: "(\<forall>c\<in>set (text_prompt s). is_space c) \<and> (\<forall>c\<in>set (image_path s). is_space c) \<longrightarrow>
      enqueue_job listing s =
        emit [ShowWarning ''No prompt'' ''Provide text and/or image prompt.''] s \<and>
      jobs (enqueue_job listing s) = jobs (enqueue_job listing (s\<lparr>text_prompt := [], image_path := []\<rparr>)) \<and>
      trace (enqueue_job listing s) = trace (enqueue_job listing (s\<lparr>text_prompt := [], image_path := []\<rparr>))"
    by (simp add: enqueue_job_rejects strip_empty_iff)
  have b: "\<not> ((\<forall>c\<in>set (text_prompt s). is_space c) \<and> (\<forall>c\<in>set (image_path s). is_space c)) \<longrightarrow>
      submitted (trace (enqueue_job (Inr n) s)) = submitted (trace s) @ [submission n s]"
    using submitted_enqueue_job [of s n] by (simp add: strip_empty_iff)
  have c: "calls (trace (run_job w e s' (submission n s))) = calls (trace s') @
     [assemble_args e
        (select_config e (config_preset s') (strip (text_prompt s)) (strip (image_path s)))
        (strip (text_prompt s)) (strip (image_path s)) (output_dir s)
        (''dreamasset_'' @ str_nat n) True]"
    by (simp add: calls_run_job job_args_def submission_def)
  have d: "job_text (submission n s) = strip (text_prompt s) \<and>
    job_img (submission n s) = strip (image_path s)"
    by (simp add: submission_def)
  note e = strip_decomposition [of "text_prompt s"] strip_decomposition [of "image_path s"]
  note f = strip_ends [of "text_prompt s"] strip_ends [of "image_path s"]
  note g = is_space_code_points [of c]
  from a b c d e f g show ?thesis by blast
qed

text \<open>
  A form holding blanks, a tab, a no-break space and NEL only is rejected; a text prompt
  with blanks around it is submitted, and run, without them.
\<close>

theorem prompts_stripped_witness:
  "is_space (CHR 0xA0) \<and>
   enqueue_job (Inr 0) blank_prompts =
     emit [ShowWarning ''No prompt'' ''Provide text and/or image prompt.''] blank_prompts \<and>
   job_text (submission 0 padded_prompt) = ''a red chair'' \<and>
   submitted (trace (enqueue_job (Inr 0) padded_prompt)) = [submission 0 padded_prompt] \<and>
   calls (trace (run_job world_ok env0 (init env0) (submission 0 padded_prompt))) =
     [[''python3'', ''/work/run_dreamgaussian.py'', ''--config'', ''/work/configs/text.yaml'',
       ''--output_dir'', ''/out'', ''--name'', ''dreamasset_0'', ''--hd'',
       ''--text'', ''a red chair'']]"
proof -
  note blank = prompts_stripped [where s = blank_prompts and listing = "Inr 0" and n = 0
      and w = world_ok and e = env0 and s' = "init env0" and c = "CHR 0xA0"]
  note padded = prompts_stripped [where s = padded_prompt and listing = "Inr 0" and n = 0
      and w = world_ok and e = env0 and s' = "init env0" and c = "CHR 0xA0"]
  have 0: "is_space (CHR 0xA0)"
    using blank by simp
  have s: "strip (text_prompt padded_prompt) = ''a red chair''"
    "strip (image_path padded_prompt) = []" "output_dir padded_prompt = ''/out''"
    "trace padded_prompt = []"
    by (simp_all add: padded_prompt_def strip_def is_space_def init_def)
  have 1: "enqueue_job (Inr 0) blank_prompts =
     emit [ShowWarning ''No prompt'' ''Provide text and/or image prompt.''] blank_prompts"
    using blank by (simp add: blank_prompts_def is_space_def)
  have 2: "job_text (submission 0 padded_prompt) = ''a red chair''"
    using padded by (simp add: s)
  have 3: "submitted (trace (enqueue_job (Inr 0) padded_prompt)) = [submission 0 padded_prompt]"
    using padded by (simp add: s padded_prompt_def is_space_def)
  have 4: "calls (trace (run_job world_ok env0 (init env0) (submission 0 padded_prompt))) =
     [[''python3'', ''/work/run_dreamgaussian.py'', ''--config'', ''/work/configs/text.yaml'',
       ''--output_dir'', ''/out'', ''--name'', ''dreamasset_0'', ''--hd'',
       ''--text'', ''a red chair'']]"
    using padded
    by (simp add: s assemble_args_def select_config_def path_join_def env0_def digit_def str_nat.simps)
  from 0 1 2 3 4 show ?thesis by blast
qed

section \<open>The files reported on success\<close>

lemma last_path_join: "b \<noteq> [] \<Longrightarrow> last (path_join a b) = last b"
  by (simp add: path_join_def)

lemma paths_distinct:
  "obj_path_of j \<noteq> tex_path_of j" "obj_path_of j \<noteq> vox_path_of j"
  "tex_path_of j \<noteq> vox_path_of j"
proof -
  have o: "last (obj_path_of j) = CHR ''j''"
    by (simp add: obj_path_of_def last_path_join)
  have t: "last (tex_path_of j) = CHR ''g''"
    by (simp add: tex_path_of_def last_path_join)
  have v: "last (vox_path_of j) = CHR ''x''"
    by (simp add: vox_path_of_def last_path_join)
  show "obj_path_of j \<noteq> tex_path_of j" using o t by auto
  show "obj_path_of j \<noteq> vox_path_of j" using o v by auto
  show "tex_path_of j \<noteq> vox_path_of j" using t v by auto
qed

lemma generate_Inr:
  assumes "generate w e s j = (Inr (a, b), fx)"
  shows "a = obj_path_of j \<and> b = tex_path_of j"
  using assms by (cases rule: generate_cases [of w e s j]) simp_all

lemma job_cat_simps [simp]:
  "job_text job_cat = []" "job_img job_cat = ''/tmp/cat.png''"
  "job_out_dir job_cat = ''/out''" "job_mesh_name job_cat = ''dreamasset_2''"
  "job_mesh_only job_cat" "\<not> job_texture_only job_cat" "\<not> job_mesh_and_texture job_cat"
  "job_voxel_mode job_cat" "job_voxel_res job_cat = 256"
  by (simp_all add: job_cat_def)

lemma world_ok_simps [simp]:
  "subprocess_run world_ok args = Inr \<lparr>returncode = 0, stdout = ''iter 500'', stderr = []\<rparr>"
  "obj2vox_importable world_ok" "obj2vox world_ok a b c = None" "save_image world_ok p = Inr True"
  by (simp_all add: world_ok_def tool_exit_def)

lemma run_job_try_cat:
  "fst (run_job_try world_ok env0 (init env0) job_cat) =
     Inr [''/out/dreamasset_2.obj'', ''/out/dreamasset_2_256.vox'']"
  by (simp add: run_job_try_def run_dreamgaussian_def obj_to_vox_def Let_def path_join_def
      str_int_def str_nat.simps digit_def)

text \<open>
  Claim C6. When the \<open>try\<close> block of a job runs to its end, the list \<open>out_paths\<close>
  is the mesh path, then the texture path if \<open>texture_only\<close> or \<open>mesh_and_texture\<close>
  is set, then the voxel path if \<open>voxel_mode\<close> is set. So the mesh path is always in
  the list, the texture path is in it exactly when one of the two texture flags is set,
  and the voxel path exactly when \<open>voxel_mode\<close> is set. The voxel path is the output
  directory joined with the mesh name, an underscore, the resolution in decimal and
  \<open>.vox\<close>. The success dialog, the last effect of the block, lists these paths.
\<close>

theorem result_paths:
  assumes "run_job_try w e s j = (Inr ps, s')"
  shows "ps = [obj_path_of j]
           @ (if job_texture_only j \<or> job_mesh_and_texture j then [tex_path_of j] else [])
           @ (if job_voxel_mode j then [vox_path_of j] else []) \<and>
         obj_path_of j \<in> set ps \<and>
         (tex_path_of j \<in> set ps \<longleftrightarrow> job_texture_only j \<or> job_mesh_and_texture j) \<and>
         (vox_path_of j \<in> set ps \<longleftrightarrow> job_voxel_mode j) \<and>
         obj_path_of j = path_join (job_out_dir j) (job_mesh_name j @ ''.obj'') \<and>
         tex_path_of j = path_join (job_out_dir j) (job_mesh_name j @ ''.png'') \<and>
         vox_path_of j = path_join (job_out_dir j)
           (job_mesh_name j @ ''_'' @ str_int (job_voxel_res j) @ ''.vox'') \<and>
         last (trace s') = ShowInfo ''Success''
           (''Generation complete!'' @ [CHR 0x0A] @ ''Files:'' @ [CHR 0x0A]
            @ str_join [CHR 0x0A] ps)"
proof -
  have ps: "ps = [obj_path_of j]
           @ (if job_texture_only j \<or> job_mesh_and_texture j then [tex_path_of j] else [])
           @ (if job_voxel_mode j then [vox_path_of j] else []) \<and>
         last (trace s') = ShowInfo ''Success''
           (''Generation complete!'' @ [CHR 0x0A] @ ''Files:'' @ [CHR 0x0A]
            @ str_join [CHR 0x0A] ps)"
  proof (cases rule: run_job_try_cases [of w e s j])
    case (generation_failed ex fx)
    then show ?thesis using assms by simp
  next
    case (no_voxel obj_path tex_path fx)
    then show ?thesis using assms generate_Inr [of w e s j obj_path tex_path fx] by auto
  next
    case (conversion_failed obj_path tex_path fx ex fx2)
    then show ?thesis using assms by simp
  next
    case (voxel obj_path tex_path fx v fx2)
    then show ?thesis using assms generate_Inr [of w e s j obj_path tex_path fx] by auto
  qed
  then have mem: "obj_path_of j \<in> set ps \<and>
         (tex_path_of j \<in> set ps \<longleftrightarrow> job_texture_only j \<or> job_mesh_and_texture j) \<and>
         (vox_path_of j \<in> set ps \<longleftrightarrow> job_voxel_mode j)"
    using paths_distinct [of j] by auto
  have defs: "obj_path_of j = path_join (job_out_dir j) (job_mesh_name j @ ''.obj'') \<and>
         tex_path_of j = path_join (job_out_dir j) (job_mesh_name j @ ''.png'') \<and>
         vox_path_of j = path_join (job_out_dir j)
           (job_mesh_name j @ ''_'' @ str_int (job_voxel_res j) @ ''.vox'')"
    by (simp add: obj_path_of_def tex_path_of_def vox_path_of_def)
  from ps mem defs show ?thesis by blast
qed

text \<open>An image job with voxel export and no texture: mesh and voxel file, no texture.\<close>

theorem result_paths_witness:
  "fst (run_job_try world_ok env0 (init env0) job_cat) =
     Inr [''/out/dreamasset_2.obj'', ''/out/dreamasset_2_256.vox''] \<and>
   obj_path_of job_cat = ''/out/dreamasset_2.obj'' \<and>
   tex_path_of job_cat \<notin> set [''/out/dreamasset_2.obj'', ''/out/dreamasset_2_256.vox''] \<and>
   vox_path_of job_cat = ''/out/dreamasset_2_256.vox''"
proof -
  obtain s' where t: "run_job_try world_ok env0 (init env0) job_cat =
      (Inr [''/out/dreamasset_2.obj'', ''/out/dreamasset_2_256.vox''], s')"
    using run_job_try_cat by (cases "run_job_try world_ok env0 (init env0) job_cat") simp
  have o: "obj_path_of job_cat = ''/out/dreamasset_2.obj''"
    by (simp add: obj_path_of_def path_join_def)
  have v: "vox_path_of job_cat = ''/out/dreamasset_2_256.vox''"
    by (simp add: vox_path_of_def path_join_def str_int_def str_nat.simps digit_def)
  from result_paths [OF t] have
    "tex_path_of job_cat \<in> set [''/out/dreamasset_2.obj'', ''/out/dreamasset_2_256.vox'']
       \<longleftrightarrow> job_texture_only job_cat \<or> job_mesh_and_texture job_cat"
    by blast
  then have
    "tex_path_of job_cat \<notin> set [''/out/dreamasset_2.obj'', ''/out/dreamasset_2_256.vox'']"
    by (simp only: job_cat_simps) simp
  with run_job_try_cat o v show ?thesis by blast
qed

section \<open>A failing job does not stop the queue\<close>

lemma notifications_generate: "filter is_notification (snd (generate w e s j)) = []"
  by (cases rule: generate_cases [of w e s j]) simp_all

lemma notifications_obj_to_vox: "filter is_notification (snd (obj_to_vox w a b c)) = []"
  by (cases rule: obj_to_vox_cases [of w a b c]) simp_all

lemma run_job_try_frame:
  "jobs (snd (run_job_try w e s j)) = jobs s"
  "threads (snd (run_job_try w e s j)) = threads s"
  "config_preset (snd (run_job_try w e s j)) = config_preset s"
  by (cases rule: run_job_try_cases [of w e s j]; simp)+

lemma run_job_frame:
  "jobs (run_job w e s j) = jobs s"
  "threads (run_job w e s j) = threads s"
  "processing (run_job w e s j) = False"
  "config_preset (run_job w e s j) = config_preset s"
proof -
  obtain r s1 where t: "run_job_try w e s j = (r, s1)"
    by (cases "run_job_try w e s j")
  have f: "jobs s1 = jobs s" "threads s1 = threads s" "config_preset s1 = config_preset s"
    using run_job_try_frame [of w e s j] t by simp_all
  show "jobs (run_job w e s j) = jobs s" "threads (run_job w e s j) = threads s"
    "processing (run_job w e s j) = False" "config_preset (run_job w e s j) = config_preset s"
    using t f by (cases r; simp add: run_job_def)+
qed

lemma run_job_failure_notified:
  assumes "fst (run_job_try w e s j) = Inl ex"
  shows "filter is_notification (trace (run_job w e s j)) =
           filter is_notification (trace s) @ [ShowError ''Error'' (''Job failed: '' @ ex)]"
    and "last (trace (run_job w e s j)) = ThreadExit j"
proof -
  have "filter is_notification (trace (run_job w e s j)) =
           filter is_notification (trace s) @ [ShowError ''Error'' (''Job failed: '' @ ex)] \<and>
        last (trace (run_job w e s j)) = ThreadExit j"
  proof (cases rule: run_job_try_cases [of w e s j])
    case (generation_failed ex' fx)
    then show ?thesis
      using assms notifications_generate [of w e s j] by (simp add: run_job_Inl)
  next
    case (no_voxel obj_path tex_path fx)
    then show ?thesis using assms by simp
  next
    case (conversion_failed obj_path tex_path fx ex' fx2)
    then show ?thesis
      using assms notifications_generate [of w e s j]
        notifications_obj_to_vox [of w obj_path "vox_path_of j" "job_voxel_res j"]
      by (simp add: run_job_Inl)
  next
    case (voxel obj_path tex_path fx v fx2)
    then show ?thesis using assms by simp
  qed
  then show "filter is_notification (trace (run_job w e s j)) =
           filter is_notification (trace s) @ [ShowError ''Error'' (''Job failed: '' @ ex)]"
    and "last (trace (run_job w e s j)) = ThreadExit j"
    by simp_all
qed

lemma poll_queue_idle:
  assumes "\<not> processing s" and "jobs s = j' # rest"
  shows "jobs (poll_queue s) = rest"
    "threads (poll_queue s) = threads s @ [\<lparr>thread_job = j', thread_preset = config_preset s\<rparr>]"
    "trace (poll_queue s) = trace s @ [ThreadStart j']" "processing (poll_queue s)"
  using assms by (simp_all add: poll_queue_def process_next_job_def)

lemma busy_simps [simp]:
  "jobs busy = [job_cat]" "processing busy"
  "threads busy = [\<lparr>thread_job = job_chair, thread_preset = ''auto''\<rparr>]"
  "config_preset busy = ''auto''" "trace busy = []"
  by (simp_all add: busy_def init_def)

lemma world_fail_simps [simp]:
  "subprocess_run world_fail args =
     Inr \<lparr>returncode = 1, stdout = ''iter 500'', stderr = ''CUDA out of memory''\<rparr>"
  by (simp add: world_fail_def tool_exit_def)

text \<open>
  Claim C7. Whatever the tools do, \<open>run_job\<close> returns with \<open>processing\<close> false and
  with the queue and the other threads as they were: the flag is cleared after a success
  and after a failure alike. When the \<open>try\<close> block is left by an exception, whether
  raised by \<open>subprocess.run\<close>, by a non-zero exit status, by the missing converter or
  by the converter itself, the job adds exactly one notification, the error dialog with
  the text of the exception, and the thread then ends. If a job waits on the queue, the
  next \<open>poll_queue\<close> takes it off the queue and starts its thread. The same holds for a
  step of the application in which the worker thread at a position \<open>i\<close> runs: it is
  removed from the running threads, and the timer's next tick starts the job at the head
  of the queue.
\<close>

theorem failure_contained:
  "processing (run_job w e s j) = False \<and>
   jobs (run_job w e s j) = jobs s \<and>
   threads (run_job w e s j) = threads s \<and>
   (fst (run_job_try w e s j) = Inl ex \<longrightarrow>
      filter is_notification (trace (run_job w e s j)) =
        filter is_notification (trace s) @ [ShowError ''Error'' (''Job failed: '' @ ex)] \<and>
      last (trace (run_job w e s j)) = ThreadExit j) \<and>
   (jobs s = j' # rest \<longrightarrow>
      jobs (poll_queue (run_job w e s j)) = rest \<and>
      threads (poll_queue (run_job w e s j)) =
        threads s @ [\<lparr>thread_job = j', thread_preset = config_preset s\<rparr>] \<and>
      processing (poll_queue (run_job w e s j)) \<and>
      trace (poll_queue (run_job w e s j)) = trace (run_job w e s j) @ [ThreadStart j']) \<and>
   (i < length (threads s) \<longrightarrow>
      processing (fire e s (Worker i w)) = False \<and>
      jobs (fire e s (Worker i w)) = jobs s \<and>
      threads (fire e s (Worker i w)) = take i (threads s) @ drop (Suc i) (threads s) \<and>
      (jobs s = j' # rest \<longrightarrow>
         jobs (fire e (fire e s (Worker i w)) Poll) = rest \<and>
         started (trace (fire e (fire e s (Worker i w)) Poll)) =
           started (trace (fire e s (Worker i w))) @ [j']))"
proof -
  have a: "processing (run_job w e s j) = False \<and> jobs (run_job w e s j) = jobs s \<and>
     threads (run_job w e s j) = threads s"
    by (simp add: run_job_frame)
  have b: "fst (run_job_try w e s j) = Inl ex \<longrightarrow>
      filter is_notification (trace (run_job w e s j)) =
        filter is_notification (trace s) @ [ShowError ''Error'' (''Job failed: '' @ ex)] \<and>
      last (trace (run_job w e s j)) = ThreadExit j"
    using run_job_failure_notified [of w e s j ex] by blast
  have c: "jobs s = j' # rest \<longrightarrow>
      jobs (poll_queue (run_job w e s j)) = rest \<and>
      threads (poll_queue (run_job w e s j)) =
        threads s @ [\<lparr>thread_job = j', thread_preset = config_preset s\<rparr>] \<and>
      processing (poll_queue (run_job w e s j)) \<and>
      trace (poll_queue (run_job w e s j)) = trace (run_job w e s j) @ [ThreadStart j']"
    using poll_queue_idle [of "run_job w e s j" j' rest] by (simp add: run_job_frame)
  have d: "i < length (threads s) \<longrightarrow>
      processing (fire e s (Worker i w)) = False \<and>
      jobs (fire e s (Worker i w)) = jobs s \<and>
      threads (fire e s (Worker i w)) = take i (threads s) @ drop (Suc i) (threads s) \<and>
      (jobs s = j' # rest \<longrightarrow>
         jobs (fire e (fire e s (Worker i w)) Poll) = rest \<and>
         started (trace (fire e (fire e s (Worker i w)) Poll)) =
           started (trace (fire e s (Worker i w))) @ [j'])"
  proof
    assume i: "i < length (threads s)"
    let ?s0 = "s\<lparr>threads := take i (threads s) @ drop (Suc i) (threads s),
                  config_preset := thread_preset (threads s ! i)\<rparr>"
    let ?s1 = "(run_job w e ?s0 (thread_job (threads s ! i)))\<lparr>config_preset := config_preset s\<rparr>"
    have f: "fire e s (Worker i w) = ?s1" using i by simp
    have p: "\<not> processing ?s1" "jobs ?s1 = jobs s"
      "threads ?s1 = take i (threads s) @ drop (Suc i) (threads s)"
      by (simp_all add: run_job_frame)
    show "processing (fire e s (Worker i w)) = False \<and>
      jobs (fire e s (Worker i w)) = jobs s \<and>
      threads (fire e s (Worker i w)) = take i (threads s) @ drop (Suc i) (threads s) \<and>
      (jobs s = j' # rest \<longrightarrow>
         jobs (fire e (fire e s (Worker i w)) Poll) = rest \<and>
         started (trace (fire e (fire e s (Worker i w)) Poll)) =
           started (trace (fire e s (Worker i w))) @ [j'])"
      unfolding f using p poll_queue_idle [of ?s1 j' rest]
      by (simp add: started_append)
  qed
  from a b c d show ?thesis by blast
qed

text \<open>
  The chair job fails while the cat job waits: one error dialog, the flag cleared, and the
  next tick starts the cat job.
\<close>

theorem failure_contained_witness:
  "fst (run_job_try world_fail env0 busy job_chair) = Inl ''DreamGaussian failed!'' \<and>
   filter is_notification (trace (run_job world_fail env0 busy job_chair)) =
     [ShowError ''Error'' ''Job failed: DreamGaussian failed!''] \<and>
   processing (fire env0 busy (Worker 0 world_fail)) = False \<and>
   jobs (fire env0 busy (Worker 0 world_fail)) = [job_cat] \<and>
   jobs (fire env0 (fire env0 busy (Worker 0 world_fail)) Poll) = [] \<and>
   started (trace (fire env0 (fire env0 busy (Worker 0 world_fail)) Poll)) =
     started (trace (fire env0 busy (Worker 0 world_fail))) @ [job_cat]"
proof -
  have g: "generate world_fail env0 busy job_chair =
         (Inl ''DreamGaussian failed!'',
          [PrintArgs (job_args env0 (config_preset busy) job_chair),
           SubprocessRun (job_args env0 (config_preset busy) job_chair),
           Print ''iter 500'', Print ''CUDA out of memory''])"
    using generate_nonzero [of world_fail env0 busy job_chair
        "\<lparr>returncode = 1, stdout = ''iter 500'', stderr = ''CUDA out of memory''\<rparr>"]
    by simp
  have t: "fst (run_job_try world_fail env0 busy job_chair) = Inl ''DreamGaussian failed!''"
    by (simp add: run_job_try_generation_failed [OF g])
  show ?thesis
    using t failure_contained [of world_fail env0 busy job_chair "''DreamGaussian failed!''"
        job_cat "[]" 0]
    by simp
qed

section \<open>One job at a time, in the order of submission\<close>

lemma one_at_a_time_le: "one_at_a_time n fx \<Longrightarrow> n \<le> 1"
  by (induction n fx rule: one_at_a_time.induct) auto

lemma one_at_a_time_append:
  "one_at_a_time n (xs @ ys) \<longleftrightarrow> one_at_a_time n xs \<and> one_at_a_time (running_after n xs) ys"
proof (induction n xs rule: one_at_a_time.induct)
  case (1 n)
  show ?case using one_at_a_time_le [of n ys] by auto
qed auto

lemma running_after_append:
  "running_after n (xs @ ys) = running_after (running_after n xs) ys"
  by (induction n xs rule: running_after.induct) auto

lemma quiet_effects:
  assumes "filter is_queue_event fx = []"
  shows "one_at_a_time n fx \<longleftrightarrow> n \<le> 1" "running_after n fx = n"
    "started fx = []" "submitted fx = []"
proof -
  have "(one_at_a_time n fx \<longleftrightarrow> n \<le> 1) \<and> running_after n fx = n \<and> started fx = []
      \<and> submitted fx = []"
    using assms
  proof (induction fx)
    case Nil
    show ?case by simp
  next
    case (Cons x fx)
    then show ?case by (cases x) (auto split: if_splits)
  qed
  then show "one_at_a_time n fx \<longleftrightarrow> n \<le> 1" "running_after n fx = n"
    "started fx = []" "submitted fx = []"
    by simp_all
qed

lemma quiet_generate: "filter is_queue_event (snd (generate w e s j)) = []"
  by (cases rule: generate_cases [of w e s j]) simp_all

lemma quiet_obj_to_vox: "filter is_queue_event (snd (obj_to_vox w a b c)) = []"
  by (cases rule: obj_to_vox_cases [of w a b c]) simp_all

lemma run_job_trace:
  "\<exists>fx. trace (run_job w e s j) = trace s @ fx @ [ThreadExit j] \<and> filter is_queue_event fx = []"
proof (cases rule: run_job_try_cases [of w e s j])
  case (generation_failed ex fx)
  then show ?thesis
    using quiet_generate [of w e s j]
    by (intro exI [of _ "fx @ [ShowError ''Error'' (''Job failed: '' @ ex)]"])
      (simp add: run_job_Inl)
next
  case (no_voxel obj_path tex_path fx)
  then show ?thesis
    using quiet_generate [of w e s j]
    by (intro exI [of _ "drop (length (trace s)) (butlast (trace (run_job w e s j)))"])
      (simp add: run_job_Inr butlast_append)
next
  case (conversion_failed obj_path tex_path fx ex fx2)
  then show ?thesis
    using quiet_generate [of w e s j]
      quiet_obj_to_vox [of w obj_path "vox_path_of j" "job_voxel_res j"]
    by (intro exI [of _ "fx @ fx2 @ [ShowError ''Error'' (''Job failed: '' @ ex)]"])
      (simp add: run_job_Inl)
next
  case (voxel obj_path tex_path fx v fx2)
  then show ?thesis
    using quiet_generate [of w e s j]
      quiet_obj_to_vox [of w obj_path "vox_path_of j" "job_voxel_res j"]
    by (intro exI [of _ "drop (length (trace s)) (butlast (trace (run_job w e s j)))"])
      (simp add: run_job_Inr butlast_append)
qed

lemma queue_inv_init: "queue_inv (init e)"
  by (simp add: queue_inv_def init_def)

lemma queue_inv_emit_quiet:
  "filter is_queue_event fx = [] \<Longrightarrow> queue_inv s \<Longrightarrow> queue_inv (emit fx s)"
  by (simp add: queue_inv_def one_at_a_time_append running_after_append quiet_effects
      started_append submitted_append)

lemma queue_inv_process_next_job:
  assumes "queue_inv s" and "\<not> processing s"
  shows "queue_inv (process_next_job s)"
proof (cases "jobs s")
  case Nil
  then show ?thesis using assms by (simp add: process_next_job_def)
next
  case (Cons j rest)
  then show ?thesis
    using assms
    by (simp add: process_next_job_def queue_inv_def one_at_a_time_append
        running_after_append started_append submitted_append)
qed

lemma queue_inv_job_list: "queue_inv (s\<lparr>job_list := l\<rparr>) = queue_inv s"
  by (simp add: queue_inv_def)

lemma queue_inv_put:
  "queue_inv s \<Longrightarrow> queue_inv (emit [QueuePut j] (s\<lparr>jobs := jobs s @ [j]\<rparr>))"
  by (simp add: queue_inv_def one_at_a_time_append running_after_append started_append
      submitted_append)

lemma queue_inv_enqueue_job:
  assumes "queue_inv s"
  shows "queue_inv (enqueue_job listing s)"
proof (cases "strip (text_prompt s) = [] \<and> strip (image_path s) = []")
  case True
  then show ?thesis
    using assms by (simp add: enqueue_job_rejects queue_inv_emit_quiet)
next
  case False
  show ?thesis
  proof (cases listing)
    case (Inl ex)
    then show ?thesis
      using False assms queue_inv_emit_quiet [of "[CallbackError ex]" s]
      by (auto simp: enqueue_job_def Let_def)
  next
    case (Inr n)
    show ?thesis
      unfolding Inr enqueue_job_accepts [OF False]
      using assms queue_inv_put [of s "submission n s"]
      by (auto simp: queue_inv_job_list intro!: queue_inv_process_next_job)
  qed
qed

lemma queue_inv_poll_queue: "queue_inv s \<Longrightarrow> queue_inv (poll_queue s)"
  by (simp add: poll_queue_def queue_inv_process_next_job)

lemma queue_inv_config_preset: "queue_inv (s\<lparr>config_preset := p\<rparr>) = queue_inv s"
  by (simp add: queue_inv_def)

lemma queue_inv_worker:
  assumes "queue_inv s"
  shows "queue_inv (fire e s (Worker i w))"
proof (cases "i < length (threads s)")
  case False
  then show ?thesis using assms by simp
next
  case True
  with assms obtain t where t: "threads s = [t]" and i: "i = 0"
    by (cases "threads s") (auto simp: queue_inv_def)
  let ?s0 = "s\<lparr>threads := [], config_preset := thread_preset t\<rparr>"
  obtain fx where fx:
      "trace (run_job w e ?s0 (thread_job t)) = trace s @ fx @ [ThreadExit (thread_job t)]"
      "filter is_queue_event fx = []"
    using run_job_trace [of w e ?s0 "thread_job t"] by auto
  have f: "fire e s (Worker i w) =
      (run_job w e ?s0 (thread_job t))\<lparr>config_preset := config_preset s\<rparr>"
    using t i by simp
  have "queue_inv (run_job w e ?s0 (thread_job t))"
    unfolding queue_inv_def
    using assms t fx
    by (simp add: queue_inv_def run_job_frame one_at_a_time_append running_after_append
        quiet_effects started_append submitted_append)
  then show ?thesis
    unfolding f by (simp add: queue_inv_config_preset)
qed

lemma queue_inv_fire: "queue_inv s \<Longrightarrow> queue_inv (fire e s x)"
proof (cases x)
  case (Generate listing)
  assume "queue_inv s"
  then show ?thesis using Generate by (simp add: queue_inv_enqueue_job)
next
  case Poll
  assume "queue_inv s"
  then show ?thesis using Poll by (simp add: queue_inv_poll_queue)
next
  case (Worker i w)
  assume "queue_inv s"
  then show ?thesis using Worker queue_inv_worker [of s e i w] by simp
qed (simp_all add: queue_inv_def)

lemma queue_inv_run: "queue_inv (run e ins)"
  by (induction ins rule: rev_induct) (simp_all add: run_def queue_inv_init queue_inv_fire)

text \<open>
  Claim C1. Take any sequence of user actions, timer ticks and thread completions, from
  the initial state. In the trace of effects, a thread is started only when no job is
  running and a thread ends only when one is, so that at every point of the trace at
  most one job is running; at most one thread is running in the state reached, and the
  number the trace gives is the number of running threads. The jobs whose threads were
  started, in the order of their start, followed by the jobs still on the queue, in the
  order of the queue, are the jobs put on the queue, in the order they were put: threads
  are started in the order of submission, and no accepted job is lost or reordered.
\<close>

theorem fifo_one_at_a_time:
  "one_at_a_time 0 (trace (run e ins)) \<and>
   length (threads (run e ins)) \<le> 1 \<and>
   running_after 0 (trace (run e ins)) = length (threads (run e ins)) \<and>
   started (trace (run e ins)) @ jobs (run e ins) = submitted (trace (run e ins))"
  using queue_inv_run [of e ins] by (simp add: queue_inv_def)

lemmas scenario_defs = run_def enqueue_job_def process_next_job_def poll_queue_def
  run_job_def run_job_try_def run_dreamgaussian_def obj_to_vox_def report_success_def
  show_preview_def emit_def init_def Let_def strip_def is_space_def str_nat.simps digit_def
  config_options_def voxel_res_options_def

lemma two_jobs_queue_events:
  "filter is_queue_event (trace (run env0 two_jobs)) =
     [QueuePut job_chair, ThreadStart job_chair, QueuePut job_cat,
      ThreadExit job_chair, ThreadStart job_cat, ThreadExit job_cat]"
  by (simp add: two_jobs_def scenario_defs job_chair_def job_cat_def env0_def)

text \<open>
  The two jobs of the scenario: each is put, started and ended in turn, the second started
  only after the first has ended.
\<close>

theorem fifo_one_at_a_time_witness:
  "one_at_a_time 0 (trace (run env0 two_jobs)) \<and>
   filter is_queue_event (trace (run env0 two_jobs)) =
     [QueuePut job_chair, ThreadStart job_chair, QueuePut job_cat,
      ThreadExit job_chair, ThreadStart job_cat, ThreadExit job_cat] \<and>
   started (trace (run env0 two_jobs)) @ jobs (run env0 two_jobs) =
     submitted (trace (run env0 two_jobs))"
  using fifo_one_at_a_time [of env0 two_jobs] two_jobs_queue_events by blast

section \<open>The preset a job runs with\<close>

lemma submission_preset [simp]: "submission n (s\<lparr>config_preset := p\<rparr>) = submission n s"
  by (simp add: submission_def)

lemma submitted_enqueue_job_preset:
  "submitted (trace (enqueue_job listing (s\<lparr>config_preset := p\<rparr>))) =
   submitted (trace (enqueue_job listing s))"
proof (cases "strip (text_prompt s) = [] \<and> strip (image_path s) = []")
  case True
  then show ?thesis by (simp add: enqueue_job_rejects submitted_append)
next
  case False
  show ?thesis
  proof (cases listing)
    case (Inl ex)
    then show ?thesis using False by (auto simp: enqueue_job_def Let_def submitted_append)
  next
    case (Inr n)
    have "\<not> (strip (text_prompt (s\<lparr>config_preset := p\<rparr>)) = []
        \<and> strip (image_path (s\<lparr>config_preset := p\<rparr>)) = [])"
      using False by simp
    from submitted_enqueue_job [OF this, of n] submitted_enqueue_job [OF False, of n]
    show ?thesis unfolding Inr by simp
  qed
qed

lemma env0_simps [simp]:
  "executable env0 = ''python3''"
  "DREAMGAUSSIAN_SCRIPT env0 = ''/work/run_dreamgaussian.py''"
  "getcwd env0 = ''/work''"
  by (simp_all add: env0_def)

text \<open>
  Claim C4, as the code has it. The tuple \<open>enqueue_job\<close> puts on the queue does not
  hold the preset: with any other preset selected, the same jobs are put. The generation
  script is run with the configuration selected from the preset that is in the Tk
  variable when the job's thread runs \<open>run_job\<close>, and from the job's own prompts. If
  that preset is neither empty nor \<open>auto\<close>, the configuration is that preset, joined
  to the configuration directory, and not the automatic choice.
\<close>

theorem preset_read_when_run:
  "submitted (trace (enqueue_job listing (s\<lparr>config_preset := p\<rparr>))) =
     submitted (trace (enqueue_job listing s)) \<and>
   calls (trace (run_job w e s j)) = calls (trace s) @
     [assemble_args e (select_config e (config_preset s) (job_text j) (job_img j))
        (job_text j) (job_img j) (job_out_dir j) (job_mesh_name j) True] \<and>
   (config_preset s \<noteq> [] \<and> config_preset s \<noteq> ''auto'' \<longrightarrow>
      select_config e (config_preset s) (job_text j) (job_img j) =
        path_join (config_dir e) (config_preset s))"
proof -
  have a: "calls (trace (run_job w e s j)) = calls (trace s) @
     [assemble_args e (select_config e (config_preset s) (job_text j) (job_img j))
        (job_text j) (job_img j) (job_out_dir j) (job_mesh_name j) True]"
    by (simp add: calls_run_job job_args_def)
  have b: "config_preset s \<noteq> [] \<and> config_preset s \<noteq> ''auto'' \<longrightarrow>
      select_config e (config_preset s) (job_text j) (job_img j) =
        path_join (config_dir e) (config_preset s)"
    by (simp add: select_config_def config_dir_def Let_def)
  from a b submitted_enqueue_job_preset [where listing = listing and s = s and p = p]
  show ?thesis by blast
qed

text \<open>
  The job with both prompts, run while \<open>text.yaml\<close> is selected: the command line
  carries \<open>text.yaml\<close>, not \<open>imagedream.yaml\<close>.
\<close>

theorem preset_read_when_run_witness:
  "config_preset overridden = ''text.yaml'' \<and>
   calls (trace (run_job world_ok env0 overridden job_both)) =
     [[''python3'', ''/work/run_dreamgaussian.py'', ''--config'', ''/work/configs/text.yaml'',
       ''--output_dir'', ''/out'', ''--name'', ''dreamasset_1'', ''--hd'',
       ''--text'', ''a red chair'', ''--image'', ''/tmp/cat.png'']]"
proof -
  have p: "config_preset overridden = ''text.yaml''" "trace overridden = []"
    by (simp_all add: overridden_def init_def)
  have d: "path_join (config_dir env0) ''text.yaml'' = ''/work/configs/text.yaml''"
    by (simp add: config_dir_def path_join_def)
  show ?thesis
    using preset_read_when_run [where listing = "Inr 0" and s = overridden and p = "''auto''"
        and w = world_ok and e = env0 and j = job_both]
    by (simp add: p d assemble_args_def job_both_def)
qed

text \<open>
  Claim C4 as stated says that a job is run with the preset it was submitted with. Here
  the job with both prompts is submitted while \<open>text.yaml\<close> is selected and waits on
  the queue; the preset is set back to \<open>auto\<close> before the job's thread runs, and the
  second command line carries \<open>imagedream.yaml\<close>.
\<close>

theorem preset_changed_counterexample:
  "config_preset (run env0 submit_with_override) = ''text.yaml'' \<and>
   jobs (run env0 submit_with_override) = [job_both] \<and>
   calls (trace (run env0 (submit_with_override @ then_auto))) =
     [[''python3'', ''/work/run_dreamgaussian.py'', ''--config'', ''/work/configs/text.yaml'',
       ''--output_dir'', ''/out'', ''--name'', ''dreamasset_0'', ''--hd'',
       ''--text'', ''a red chair''],
      [''python3'', ''/work/run_dreamgaussian.py'', ''--config'',
       ''/work/configs/imagedream.yaml'',
       ''--output_dir'', ''/out'', ''--name'', ''dreamasset_1'', ''--hd'',
       ''--text'', ''a red chair'', ''--image'', ''/tmp/cat.png'']]"
  by (simp add: submit_with_override_def then_auto_def scenario_defs job_both_def env0_def
      world_ok_def tool_exit_def select_config_def assemble_args_def path_join_def)

text \<open>
  A job started at once reads the preset as its thread starts: setting the preset back to
  \<open>auto\<close> while the job runs does not change its command line.
\<close>

lemma preset_read_at_thread_start:
  "calls (trace (run env0
     [SetOutputDir ''/out'', SetTextPrompt ''a red chair'', SetImagePath ''/tmp/cat.png'',
      SetConfigPreset ''text.yaml'', Generate (Inr 0), SetConfigPreset ''auto'',
      Worker 0 world_ok])) =
     [[''python3'', ''/work/run_dreamgaussian.py'', ''--config'', ''/work/configs/text.yaml'',
       ''--output_dir'', ''/out'', ''--name'', ''dreamasset_0'', ''--hd'',
       ''--text'', ''a red chair'', ''--image'', ''/tmp/cat.png'']]"
  by (simp add: scenario_defs env0_def world_ok_def tool_exit_def select_config_def
      assemble_args_def path_join_def)

section \<open>Configuration selection\<close>

lemma preset_inv_init: "preset_inv (init e)"
  by (simp add: preset_inv_def init_def config_options_def)

lemma preset_inv_process_next_job: "preset_inv s \<Longrightarrow> preset_inv (process_next_job s)"
  by (simp add: preset_inv_def process_next_job_def split: list.splits)

lemma preset_inv_enqueue_job: "preset_inv s \<Longrightarrow> preset_inv (enqueue_job listing s)"
proof -
  assume inv: "preset_inv s"
  have a: "preset_inv (emit fx s)" for fx
    using inv by (simp add: preset_inv_def)
  have b: "preset_inv ((emit fx (s\<lparr>jobs := js\<rparr>))\<lparr>job_list := l\<rparr>)" for fx js l
    using inv by (simp add: preset_inv_def)
  show ?thesis
  proof (cases "strip (text_prompt s) = [] \<and> strip (image_path s) = []")
    case True
    then show ?thesis using a by (simp add: enqueue_job_rejects)
  next
    case False
    show ?thesis
    proof (cases listing)
      case (Inl ex)
      then show ?thesis using False a [of "[CallbackError ex]"]
        by (auto simp: enqueue_job_def Let_def)
    next
      case (Inr n)
      show ?thesis
        unfolding Inr enqueue_job_accepts [OF False]
        using b by (auto intro!: preset_inv_process_next_job)
    qed
  qed
qed

lemma preset_inv_fire: "preset_inv s \<Longrightarrow> preset_inv (fire e s x)"
proof (cases x)
  case (Generate listing)
  assume "preset_inv s"
  then show ?thesis using Generate by (simp add: preset_inv_enqueue_job)
next
  case Poll
  assume "preset_inv s"
  then show ?thesis using Poll by (simp add: poll_queue_def preset_inv_process_next_job)
next
  case (Worker i w)
  assume inv: "preset_inv s"
  have "list_all (\<lambda>t. thread_preset t \<in> set config_options)
      (take i (threads s) @ drop (Suc i) (threads s))"
    using inv
    by (auto simp: preset_inv_def list_all_iff dest: in_set_takeD in_set_dropD)
  then show ?thesis
    using inv Worker by (simp add: preset_inv_def run_job_frame)
qed (simp_all add: preset_inv_def)

lemma preset_inv_run: "preset_inv (run e ins)"
  by (induction ins rule: rev_induct) (simp_all add: run_def preset_inv_init preset_inv_fire)

text \<open>
  Claim C2. The preset is a value of the read-only combobox: \<open>auto\<close> or one of the
  five configuration files. The configuration file is a function of the preset and of
  which prompts are present: a preset other than \<open>auto\<close> is used unchanged, joined to
  the configuration directory, whatever the prompts are; for \<open>auto\<close>, text with image
  selects \<open>imagedream.yaml\<close>, text alone \<open>text.yaml\<close> and an image alone
  \<open>image.yaml\<close>. Two calls that agree on the preset and on the presence of each prompt
  select the same file, and the file selected is the one on the command line of the
  generation script. Whatever the user does, the preset selected and the preset a running
  thread has read are values of the combobox, so these are the presets
  \<open>run_dreamgaussian\<close> is called with.
\<close>

theorem config_resolution:
  assumes "p \<in> set config_options"
  shows
  "(p \<noteq> ''auto'' \<longrightarrow> select_config e p t i = path_join (config_dir e) p) \<and>
   (p = ''auto'' \<longrightarrow>
      (t \<noteq> [] \<and> i \<noteq> [] \<longrightarrow> select_config e p t i = path_join (config_dir e) ''imagedream.yaml'') \<and>
      (t \<noteq> [] \<and> i = [] \<longrightarrow> select_config e p t i = path_join (config_dir e) ''text.yaml'') \<and>
      (t = [] \<and> i \<noteq> [] \<longrightarrow> select_config e p t i = path_join (config_dir e) ''image.yaml'')) \<and>
   ((t = [] \<longleftrightarrow> t' = []) \<and> (i = [] \<longleftrightarrow> i' = []) \<longrightarrow> select_config e p t i = select_config e p t' i') \<and>
   calls (snd (run_dreamgaussian w e t i od mn hq p))
     = [assemble_args e (select_config e p t i) t i od mn hq] \<and>
   config_preset (run e ins) \<in> set config_options \<and>
   list_all (\<lambda>th. thread_preset th \<in> set config_options) (threads (run e ins))"
proof -
  have ne: "p \<noteq> []"
    using assms by (auto simp: config_options_def)
  have a: "calls (snd (run_dreamgaussian w e t i od mn hq p))
     = [assemble_args e (select_config e p t i) t i od mn hq]"
    by (simp add: run_dreamgaussian_def Let_def split: sum.splits)
  have b: "(t = [] \<longleftrightarrow> t' = []) \<and> (i = [] \<longleftrightarrow> i' = []) \<longrightarrow>
      select_config e p t i = select_config e p t' i'"
    by (simp add: select_config_def Let_def)
  have c: "(p \<noteq> ''auto'' \<longrightarrow> select_config e p t i = path_join (config_dir e) p) \<and>
   (p = ''auto'' \<longrightarrow>
      (t \<noteq> [] \<and> i \<noteq> [] \<longrightarrow> select_config e p t i = path_join (config_dir e) ''imagedream.yaml'') \<and>
      (t \<noteq> [] \<and> i = [] \<longrightarrow> select_config e p t i = path_join (config_dir e) ''text.yaml'') \<and>
      (t = [] \<and> i \<noteq> [] \<longrightarrow> select_config e p t i = path_join (config_dir e) ''image.yaml''))"
    using ne by (simp add: select_config_def config_dir_def Let_def)
  have d: "config_preset (run e ins) \<in> set config_options \<and>
   list_all (\<lambda>th. thread_preset th \<in> set config_options) (threads (run e ins))"
    using preset_inv_run [of e ins] by (simp add: preset_inv_def)
  from a b c d show ?thesis by blast
qed

text \<open>The four decisions at concrete inputs, and two text prompts that select alike.\<close>

theorem config_resolution_witness:
  "''text.yaml'' \<in> set config_options \<and> ''auto'' \<in> set config_options \<and>
   select_config env0 ''text.yaml'' ''a red chair'' ''/tmp/cat.png'' = ''/work/configs/text.yaml'' \<and>
   select_config env0 ''auto'' ''a red chair'' ''/tmp/cat.png'' = ''/work/configs/imagedream.yaml'' \<and>
   select_config env0 ''auto'' ''a red chair'' [] = ''/work/configs/text.yaml'' \<and>
   select_config env0 ''auto'' [] ''/tmp/cat.png'' = ''/work/configs/image.yaml'' \<and>
   select_config env0 ''auto'' ''a red chair'' [] = select_config env0 ''auto'' ''a blue table'' []"
proof -
  have m: "''text.yaml'' \<in> set config_options"
    by (simp add: config_options_def)
  have n: "''auto'' \<in> set config_options"
    by (simp add: config_options_def)
  have dir: "config_dir env0 = ''/work/configs''"
    by (simp add: config_dir_def env0_def path_join_def)
  have a: "select_config env0 ''text.yaml'' ''a red chair'' ''/tmp/cat.png''
      = ''/work/configs/text.yaml''"
    using config_resolution [OF m, where e = env0 and t = "''a red chair''" and i = "''/tmp/cat.png''"
        and t' = "''a red chair''" and i' = "''/tmp/cat.png''" and w = world_ok and od = "''/out''"
        and mn = "''dreamasset_0''" and hq = True and ins = "[]"]
    by (simp add: dir path_join_def)
  have b: "select_config env0 ''auto'' ''a red chair'' ''/tmp/cat.png''
      = ''/work/configs/imagedream.yaml''"
    using config_resolution [OF n, where e = env0 and t = "''a red chair''" and i = "''/tmp/cat.png''"
        and t' = "''a red chair''" and i' = "''/tmp/cat.png''" and w = world_ok and od = "''/out''"
        and mn = "''dreamasset_0''" and hq = True and ins = "[]"]
    by (simp add: dir path_join_def)
  have c: "select_config env0 ''auto'' ''a red chair'' [] = ''/work/configs/text.yaml''"
    using config_resolution [OF n, where e = env0 and t = "''a red chair''" and i = "[]"
        and t' = "''a red chair''" and i' = "[]" and w = world_ok and od = "''/out''"
        and mn = "''dreamasset_0''" and hq = True and ins = "[]"]
    by (simp add: dir path_join_def)
  have d: "select_config env0 ''auto'' [] ''/tmp/cat.png'' = ''/work/configs/image.yaml''"
    using config_resolution [OF n, where e = env0 and t = "[]" and i = "''/tmp/cat.png''"
        and t' = "[]" and i' = "''/tmp/cat.png''" and w = world_ok and od = "''/out''"
        and mn = "''dreamasset_0''" and hq = True and ins = "[]"]
    by (simp add: dir path_join_def)
  have pure: "select_config env0 ''auto'' ''a red chair'' []
      = select_config env0 ''auto'' ''a blue table'' []"
    using config_resolution [OF n, where e = env0 and t = "''a red chair''" and i = "[]"
        and t' = "''a blue table''" and i' = "[]" and w = world_ok and od = "''/out''"
        and mn = "''dreamasset_0''" and hq = True and ins = "[]"]
    by auto
  from m n a b c d pure show ?thesis by blast
qed

end
